theory Spec2Isabelle
  imports Complex_Main "HOL-Library.AList" "HOL-Library.Word"
begin

unbundle bit_operations_syntax

section \<open>Values, columns and tables\<close>

text \<open>
  The program (\<^verbatim>\<open>src/main.py\<close>) is a class \<^verbatim>\<open>DataAnalyzer\<close> over pandas tables.
  A table is modelled by what the program reads of it: its row count, and its columns in
  order, each with a label, a dtype and its cells. A \<^verbatim>\<open>float64\<close> is its 64-bit pattern,
  so that "the same value" means the same bits and NaN is recognisable.
\<close>

type_synonym float64 = "64 word"

definition isnan :: "float64 \<Rightarrow> bool" where
  "isnan x = (take_bit 11 (drop_bit 52 x) = 0x7FF \<and> take_bit 52 x \<noteq> 0)"

text \<open>Dates are day numbers counted from 1970-01-01.\<close>

datatype cell =
    IntC int
  | FloatC float64
  | StrC string
  | BoolC bool
  | DateC int
  | NoneC
  | NaT

text \<open>\<^verbatim>\<open>isnull\<close>: the missing values of pandas are \<^verbatim>\<open>None\<close>, \<^verbatim>\<open>NaT\<close> and NaN.\<close>

fun isnull :: "cell \<Rightarrow> bool" where
  "isnull NoneC = True"
| "isnull NaT = True"
| "isnull (FloatC x) = isnan x"
| "isnull (IntC i) = False"
| "isnull (StrC s) = False"
| "isnull (BoolC b) = False"
| "isnull (DateC d) = False"

text \<open>
  Python's \<^verbatim>\<open>==\<close> on cells, by which pandas and dicts tell keys apart: \<^verbatim>\<open>bool\<close>,
  \<^verbatim>\<open>int\<close> and \<^verbatim>\<open>float\<close> compare by their numeric value (\<^verbatim>\<open>True == 1 == 1.0\<close>), a
  string equals the same string only, a date the same date, \<^verbatim>\<open>None\<close> itself, and NaN
  and \<^verbatim>\<open>NaT\<close> equal nothing. Each cell gets the key of its equality class.
\<close>

definition isinf :: "float64 \<Rightarrow> bool" where
  "isinf x = (take_bit 11 (drop_bit 52 x) = 0x7FF \<and> take_bit 52 x = 0)"

text \<open>The value of a finite \<^verbatim>\<open>float64\<close>: sign, 11 bits of exponent, 52 bits of fraction.\<close>

definition float_val :: "float64 \<Rightarrow> rat" where
  "float_val x =
     (let e = unat (take_bit 11 (drop_bit 52 x));
          m = unat (take_bit 52 x)
      in (if bit x 63 then - 1 else 1) *
         (if e = 0 then of_nat m / 2 ^ 1074
          else of_nat (2 ^ 52 + m) * 2 ^ e / 2 ^ 1075))"

datatype pykey = KNum rat | KInf bool | KStr string | KDate int | KNone

fun key :: "cell \<Rightarrow> pykey option" where
  "key (IntC i) = Some (KNum (of_int i))"
| "key (BoolC b) = Some (KNum (if b then 1 else 0))"
| "key (FloatC x) =
     (if isnan x then None
      else if isinf x then Some (KInf (bit x 63))
      else Some (KNum (float_val x)))"
| "key (StrC s) = Some (KStr s)"
| "key (DateC d) = Some (KDate d)"
| "key NoneC = Some KNone"
| "key NaT = None"

definition py_eq :: "cell \<Rightarrow> cell \<Rightarrow> bool" where
  "py_eq a b = (key a \<noteq> None \<and> key a = key b)"

text \<open>
  The dtypes a table of this program can have: \<^verbatim>\<open>read_csv\<close> infers \<^verbatim>\<open>int64\<close>,
  \<^verbatim>\<open>float64\<close>, \<^verbatim>\<open>bool\<close> and \<^verbatim>\<open>object\<close>; the generator adds \<^verbatim>\<open>datetime64\<close>; the
  program's own selections name \<^verbatim>\<open>category\<close>, which carries its list of categories.
\<close>

datatype dtype = Int64 | Float64 | Object | Category "cell list" | Bool | Datetime64

record column =
  cname :: string
  cdtype :: dtype
  cvalues :: "cell list"

record dataframe =
  nrows :: nat
  cols :: "column list"

definition shape :: "dataframe \<Rightarrow> nat \<times> nat" where
  "shape df = (nrows df, length (cols df))"

definition columns :: "dataframe \<Rightarrow> string list" where
  "columns df = map cname (cols df)"

text \<open>\<^verbatim>\<open>pd.DataFrame()\<close>: no rows, no columns.\<close>

definition empty_frame :: dataframe where
  "empty_frame = \<lparr>nrows = 0, cols = []\<rparr>"

text \<open>
  The exceptions of the model. All of them are subclasses of Python's \<^verbatim>\<open>Exception\<close>, so
  \<^verbatim>\<open>except Exception\<close> catches every one; asynchronous interrupts are outside the model.
\<close>

datatype exn =
    FileNotFoundError
  | FileExistsError
  | PermissionError
  | ValueError
  | KeyError
  | IndexError
  | AttributeError
  | LibraryError string

text \<open>
  \<^verbatim>\<open>pd.DataFrame(data)\<close> on a dict of arrays: the arrays must all have the same length
  (pandas raises \<^verbatim>\<open>ValueError\<close> otherwise), which becomes the row count.
\<close>

definition DataFrame :: "(string \<times> dtype \<times> cell list) list \<Rightarrow> exn + dataframe" where
  "DataFrame d =
     (case d of
        [] \<Rightarrow> Inr empty_frame
      | (_, _, v) # _ \<Rightarrow>
          if list_all (\<lambda>(_, _, v'). length v' = length v) d
          then Inr \<lparr>nrows = length v,
                    cols = map (\<lambda>(n, t, vs). \<lparr>cname = n, cdtype = t, cvalues = vs\<rparr>) d\<rparr>
          else Inl ValueError)"

text \<open>
  \<^verbatim>\<open>select_dtypes(include=[...])\<close>. \<^verbatim>\<open>np.number\<close> selects the integer and floating
  dtypes, and neither \<^verbatim>\<open>bool\<close> nor \<^verbatim>\<open>datetime64\<close>.
\<close>

datatype dtype_sel = np_number | sel_object | sel_category | sel_bool

fun dtype_matches :: "dtype_sel \<Rightarrow> dtype \<Rightarrow> bool" where
  "dtype_matches np_number t = (t = Int64 \<or> t = Float64)"
| "dtype_matches sel_object t = (t = Object)"
| "dtype_matches sel_category t = (case t of Category _ \<Rightarrow> True | _ \<Rightarrow> False)"
| "dtype_matches sel_bool t = (t = Bool)"

definition select_dtypes :: "dtype_sel list \<Rightarrow> dataframe \<Rightarrow> dataframe" where
  "select_dtypes include df =
     df\<lparr>cols := filter (\<lambda>c. list_ex (\<lambda>s. dtype_matches s (cdtype c)) include) (cols df)\<rparr>"

text \<open>
  \<^verbatim>\<open>df[col]\<close> for a label: \<^verbatim>\<open>KeyError\<close> when no column has it, the column (a
  \<^verbatim>\<open>Series\<close>) when one has it, and the table of the columns that have it (a
  \<^verbatim>\<open>DataFrame\<close>) when the label is repeated.
\<close>

datatype selection = Series column | Frame "column list"

definition getitem :: "dataframe \<Rightarrow> string \<Rightarrow> exn + selection" where
  "getitem df col =
     (case filter (\<lambda>c. cname c = col) (cols df) of
        [] \<Rightarrow> Inl KeyError
      | [c] \<Rightarrow> Inr (Series c)
      | c # c' # cs \<Rightarrow> Inr (Frame (c # c' # cs)))"

text \<open>\<^verbatim>\<open>isnull().sum()\<close> of one column.\<close>

definition isnull_sum :: "column \<Rightarrow> nat" where
  "isnull_sum c = length (filter isnull (cvalues c))"

text \<open>
  The values of a list as a hash table meets them: the first cell of every equality
  class, in order (\<^verbatim>\<open>[1, '1', 1, True]\<close> gives \<^verbatim>\<open>[1, '1']\<close>).
\<close>

fun first_seen :: "pykey option list \<Rightarrow> cell list \<Rightarrow> cell list" where
  "first_seen seen [] = []"
| "first_seen seen (x # xs) =
     (if key x \<in> set seen then first_seen seen xs
      else x # first_seen (key x # seen) xs)"

text \<open>
  \<^verbatim>\<open>Series.value_counts()\<close>: the missing values are dropped, the cells that remain are
  counted by equality class (so \<^verbatim>\<open>[1, '1', 1, True]\<close> gives \<^verbatim>\<open>{1: 3, '1': 1}\<close>), and
  the table is ordered by descending count. A categorical column lists every category of
  its dtype, also one that never occurs (with count zero). Values of equal count are kept
  in the order they are met; pandas promises no order among them, and no statement below
  depends on one.
\<close>

definition value_counts :: "column \<Rightarrow> (cell \<times> nat) list" where
  "value_counts s =
     (let xs = filter (\<lambda>v. \<not> isnull v) (cvalues s);
          keys = (case cdtype s of
                    Category cats \<Rightarrow> cats
                  | _ \<Rightarrow> first_seen [] xs)
      in sort_key (\<lambda>(v, c). - int c) (map (\<lambda>v. (v, length (filter (py_eq v) xs))) keys))"

text \<open>
  \<^verbatim>\<open>df[col].value_counts()\<close>: on the table that a repeated label selects, pandas groups
  by the repeated label and raises \<^verbatim>\<open>ValueError\<close>.
\<close>

definition selection_value_counts :: "selection \<Rightarrow> exn + (cell \<times> nat) list" where
  "selection_value_counts x =
     (case x of
        Series s \<Rightarrow> Inr (value_counts s)
      | Frame cs \<Rightarrow> Inl ValueError)"

text \<open>
  \<^verbatim>\<open>.to_dict()\<close> of a frequency table: a Python dict keyed by cells, so a key equal
  (\<^verbatim>\<open>==\<close>) to an earlier one takes its place in the dict and leaves the earlier key.
\<close>

fun py_update :: "cell \<Rightarrow> 'v \<Rightarrow> (cell \<times> 'v) list \<Rightarrow> (cell \<times> 'v) list" where
  "py_update k v [] = [(k, v)]"
| "py_update k v ((k', v') # d) =
     (if py_eq k' k then (k', v) # d else (k', v') # py_update k v d)"

definition to_dict :: "(cell \<times> 'v) list \<Rightarrow> (cell \<times> 'v) list" where
  "to_dict items = foldl (\<lambda>d (k, v). py_update k v d) [] items"

text \<open>
  A well-formed table: unique labels, every column as long as the table, and a
  categorical column holding only its categories or missing values, the categories being
  distinct (no two of them equal) and not missing.
\<close>

definition wf_column :: "nat \<Rightarrow> column \<Rightarrow> bool" where
  "wf_column n c =
     (length (cvalues c) = n \<and>
      (case cdtype c of
         Category cats \<Rightarrow>
           distinct (map key cats) \<and> list_all (\<lambda>v. \<not> isnull v) cats \<and>
           list_all (\<lambda>v. isnull v \<or> v \<in> set cats) (cvalues c)
       | _ \<Rightarrow> True))"

definition wf_frame :: "dataframe \<Rightarrow> bool" where
  "wf_frame df = (distinct (columns df) \<and> list_all (wf_column (nrows df)) (cols df))"

section \<open>The file system and the figures written to it\<close>

text \<open>
  A path is its list of components (\<^verbatim>\<open>pathlib.PurePath.parts\<close>); an absolute path
  starts with the component \<^verbatim>\<open>/\<close>. \<^verbatim>\<open>Path(s)\<close> drops empty and \<^verbatim>\<open>.\<close> components.
\<close>

type_synonym path = "string list"

fun split_on :: "char \<Rightarrow> string \<Rightarrow> string list" where
  "split_on d [] = [[]]"
| "split_on d (c # cs) =
     (if c = d then [] # split_on d cs
      else (case split_on d cs of
              [] \<Rightarrow> [[c]]
            | p # ps \<Rightarrow> (c # p) # ps))"

definition Path :: "string \<Rightarrow> path" where
  "Path s =
     (if take 1 s = ''/'' then [''/''] else []) @
     filter (\<lambda>p. p \<noteq> [] \<and> p \<noteq> ''.'') (split_on (CHR ''/'') s)"

text \<open>\<^verbatim>\<open>p / s\<close>: an absolute \<^verbatim>\<open>s\<close> replaces \<^verbatim>\<open>p\<close>, a relative one is appended.\<close>

definition path_div :: "path \<Rightarrow> string \<Rightarrow> path" where
  "path_div p s = (if take 1 s = ''/'' then Path s else p @ Path s)"

definition parent :: "path \<Rightarrow> path" where
  "parent p = (if p = [''/''] then p else butlast p)"

text \<open>
  What is drawn: each sub-plot (an \<^verbatim>\<open>Axes\<close>) records the plots drawn on it and its
  labels. A histogram records the column's cells and its bin count, a bar chart the
  frequency table it shows. \<^verbatim>\<open>HistFrame\<close> stands for what \<^verbatim>\<open>DataFrame.hist\<close> draws
  when a repeated label selects several columns: pandas then lays the histograms out on
  a grid of its own in the same figure, which the model does not follow; the statements
  on a figure's content are about tables with unique labels.
\<close>

datatype plot = Hist "cell list" nat | Bar "(cell \<times> nat) list" | HistFrame "cell list list" nat

text \<open>
  \<^verbatim>\<open>hist\<close> drops the missing values and raises \<^verbatim>\<open>ValueError\<close> (the range is not
  finite) when an infinite value remains.
\<close>

definition hist_raises :: "cell list \<Rightarrow> bool" where
  "hist_raises vs = list_ex (\<lambda>v. case v of FloatC x \<Rightarrow> isinf x | _ \<Rightarrow> False) vs"

record axes =
  plots :: "plot list"
  title :: "string option"
  xlabel :: "string option"
  ylabel :: "string option"
  xtick_rotation :: "nat option"

definition new_axes :: axes where
  "new_axes = \<lparr>plots = [], title = None, xlabel = None, ylabel = None, xtick_rotation = None\<rparr>"

text \<open>
  \<^verbatim>\<open>plt.subplots(1, n)\<close> makes \<^verbatim>\<open>n\<close> empty sub-plots. For \<^verbatim>\<open>n = 1\<close> matplotlib
  returns the one \<^verbatim>\<open>Axes\<close> itself and the program wraps it in a list (lines 111-112 and
  129-130), so \<^verbatim>\<open>axes\<close> is a list of \<^verbatim>\<open>n\<close> sub-plots in both cases.
\<close>

definition subplots :: "nat \<Rightarrow> axes list" where
  "subplots ncols = replicate ncols new_axes"

text \<open>A file is the text it holds, or an image: the figure saved, its dpi and bounding box.\<close>

datatype content = Text string | Image "axes list" nat string

record filesys =
  dirs :: "path set"
  files :: "path \<rightharpoonup> content"
  writable :: "path set"

definition exists :: "filesys \<Rightarrow> path \<Rightarrow> bool" where
  "exists fs p = (p \<in> dirs fs \<or> files fs p \<noteq> None)"

definition is_dir :: "filesys \<Rightarrow> path \<Rightarrow> bool" where
  "is_dir fs p = (p \<in> dirs fs)"

text \<open>
  \<^verbatim>\<open>os.mkdir\<close>: fails when the path exists, when its parent directory does not, and when
  the parent directory may not be written to (\<^verbatim>\<open>writable\<close> holds the directories in
  which entries may be created). The new directory is the caller's own, and writable.
\<close>

definition os_mkdir :: "filesys \<Rightarrow> path \<Rightarrow> exn + filesys" where
  "os_mkdir fs p =
     (if exists fs p then Inl FileExistsError
      else if parent p \<notin> dirs fs then Inl FileNotFoundError
      else if parent p \<notin> writable fs then Inl PermissionError
      else Inr (fs\<lparr>dirs := insert p (dirs fs), writable := insert p (writable fs)\<rparr>))"

text \<open>
  \<^verbatim>\<open>Path.mkdir(exist_ok=True)\<close> (with \<^verbatim>\<open>parents=False\<close>): pathlib re-raises
  \<^verbatim>\<open>FileNotFoundError\<close>, and any other \<^verbatim>\<open>OSError\<close> unless the path is a directory.
\<close>

definition mkdir_exist_ok :: "filesys \<Rightarrow> path \<Rightarrow> exn + filesys" where
  "mkdir_exist_ok fs p =
     (case os_mkdir fs p of
        Inr fs' \<Rightarrow> Inr fs'
      | Inl FileNotFoundError \<Rightarrow> Inl FileNotFoundError
      | Inl e \<Rightarrow> if is_dir fs p then Inr fs else Inl e)"

text \<open>
  \<^verbatim>\<open>plt.savefig(path, dpi=..., bbox_inches=...)\<close> writes the current figure: it needs
  the directory to exist and to be writable, and the path not to be a directory.
\<close>

definition savefig :: "filesys \<Rightarrow> path \<Rightarrow> axes list \<Rightarrow> nat \<Rightarrow> string \<Rightarrow> exn + filesys" where
  "savefig fs p fig dpi bbox_inches =
     (if parent p \<notin> dirs fs then Inl FileNotFoundError
      else if p \<in> dirs fs then Inl (LibraryError ''IsADirectoryError'')
      else if parent p \<notin> writable fs then Inl PermissionError
      else Inr (fs\<lparr>files := (files fs)(p \<mapsto> Image fig dpi bbox_inches)\<rparr>))"

section \<open>The libraries, the session and the world\<close>

text \<open>
  numpy's generator and the two pandas routines that read a file and compute statistics
  are not part of the program: they are parameters. The state of numpy's global generator
  is a number; every drawing function returns its sample and the next state.
\<close>

type_synonym rng_state = nat

record numpy =
  random_seed :: "nat \<Rightarrow> rng_state"
  random_choice :: "rng_state \<Rightarrow> cell list \<Rightarrow> nat \<Rightarrow> cell list \<times> rng_state"
  random_choice_p :: "rng_state \<Rightarrow> cell list \<Rightarrow> nat \<Rightarrow> float64 list \<Rightarrow> cell list \<times> rng_state"
  random_normal :: "rng_state \<Rightarrow> float64 \<Rightarrow> float64 \<Rightarrow> nat \<Rightarrow> float64 list \<times> rng_state"

text \<open>
  What numpy documents of them: \<^verbatim>\<open>choice(a, n)\<close> returns \<^verbatim>\<open>n\<close> elements of a
  non-empty \<^verbatim>\<open>a\<close>, and \<^verbatim>\<open>normal(loc, scale, n)\<close> with finite \<^verbatim>\<open>loc\<close> and
  \<^verbatim>\<open>scale\<close> returns \<^verbatim>\<open>n\<close> floats, none of them NaN.
\<close>

definition isfinite :: "float64 \<Rightarrow> bool" where
  "isfinite x = (take_bit 11 (drop_bit 52 x) \<noteq> 0x7FF)"

definition np_contract :: "numpy \<Rightarrow> bool" where
  "np_contract np =
     ((\<forall>g a n. a \<noteq> [] \<longrightarrow>
         length (fst (random_choice np g a n)) = n \<and>
         set (fst (random_choice np g a n)) \<subseteq> set a) \<and>
      (\<forall>g a n p. a \<noteq> [] \<longrightarrow>
         length (fst (random_choice_p np g a n p)) = n \<and>
         set (fst (random_choice_p np g a n p)) \<subseteq> set a) \<and>
      (\<forall>g loc scale n. isfinite loc \<and> isfinite scale \<longrightarrow>
         length (fst (random_normal np g loc scale n)) = n \<and>
         list_all (\<lambda>x. \<not> isnan x) (fst (random_normal np g loc scale n))))"

text \<open>\<^verbatim>\<open>describe().to_dict()\<close>: column label to statistic to value.\<close>

type_synonym summary = "(string \<times> (string \<times> float64) list) list"

record pandas =
  read_csv :: "filesys \<Rightarrow> path \<Rightarrow> exn + dataframe"
  describe :: "dataframe \<Rightarrow> exn + summary"

text \<open>The session object: \<^verbatim>\<open>self.data_path\<close> and \<^verbatim>\<open>self.data\<close> (\<^verbatim>\<open>None\<close> at first).\<close>

record analyzer =
  data_path :: path
  data :: "dataframe option"

definition DataAnalyzer :: "string \<Rightarrow> analyzer" where
  "DataAnalyzer p = \<lparr>data_path = Path p, data = None\<rparr>"

text \<open>What the program logs, by level.\<close>

datatype level = INFO | WARNING | ERROR

datatype message =
    DadosCarregados "nat \<times> nat"
  | ArquivoNaoEncontrado
  | ErroAoCarregar exn
  | DadosDeExemploGerados "nat \<times> nat"
  | VisualizacoesSalvas path

text \<open>The world outside the session: numpy's generator, the file system, the log.\<close>

record world =
  rng :: rng_state
  fs :: filesys
  logs :: "(level \<times> message) list"

definition logger :: "level \<Rightarrow> message \<Rightarrow> world \<Rightarrow> world" where
  "logger l m w = w\<lparr>logs := logs w @ [(l, m)]\<rparr>"

section \<open>The operations of \<^verbatim>\<open>DataAnalyzer\<close>\<close>

text \<open>
  Every method takes the session and the world and returns its result (or the exception
  it raises) with the session and the world as it leaves them.
\<close>

text \<open>The constants of \<^verbatim>\<open>generate_sample_data\<close>: 100.0, 25.0, 0.7, 0.3 and 2023-01-01.\<close>

definition f100 :: float64 where "f100 = 0x4059000000000000"
definition f25 :: float64 where "f25 = 0x4039000000000000"
definition f07 :: float64 where "f07 = 0x3FE6666666666666"
definition f03 :: float64 where "f03 = 0x3FD3333333333333"
definition d2023_01_01 :: int where "d2023_01_01 = 19358"

text \<open>\<^verbatim>\<open>pd.date_range(start, periods=n, freq='D')\<close>: \<^verbatim>\<open>n\<close> consecutive days.\<close>

definition date_range :: "int \<Rightarrow> nat \<Rightarrow> cell list" where
  "date_range start periods = map (\<lambda>k. DateC (start + int k)) [0..<periods]"

text \<open>
  \<^verbatim>\<open>generate_sample_data\<close> (lines 49-68). The dict is built in the order written, so the
  generator is drawn from for \<^verbatim>\<open>categoria\<close>, then \<^verbatim>\<open>valor\<close>, then \<^verbatim>\<open>ativo\<close>.
\<close>

definition generate_sample_data ::
  "numpy \<Rightarrow> analyzer \<Rightarrow> world \<Rightarrow> (exn + dataframe) \<times> analyzer \<times> world" where
  "generate_sample_data np self w =
     (let g0 = random_seed np 42;
          n_samples = 1000;
          (categoria, g1) =
             random_choice np g0 [StrC ''A'', StrC ''B'', StrC ''C'', StrC ''D''] n_samples;
          (valor, g2) = random_normal np g1 f100 f25 n_samples;
          (ativo, g3) =
             random_choice_p np g2 [BoolC True, BoolC False] n_samples [f07, f03];
          w' = w\<lparr>rng := g3\<rparr>
      in case DataFrame
                [(''id'', Int64, map IntC [1..int n_samples]),
                 (''categoria'', Object, categoria),
                 (''valor'', Float64, map FloatC valor),
                 (''data'', Datetime64, date_range d2023_01_01 n_samples),
                 (''ativo'', Bool, ativo)] of
           Inl e \<Rightarrow> (Inl e, self, w')
         | Inr df \<Rightarrow>
             (Inr df, self\<lparr>data := Some df\<rparr>,
              logger INFO (DadosDeExemploGerados (shape df)) w'))"

text \<open>
  \<^verbatim>\<open>load_data\<close> (lines 31-47). Both branches of the \<^verbatim>\<open>if\<close> are inside the \<^verbatim>\<open>try\<close>:
  an exception of \<^verbatim>\<open>read_csv\<close>, and one of the generation in the \<^verbatim>\<open>else\<close> branch, reach
  the handler, which generates; an exception of the handler's own generation leaves
  \<^verbatim>\<open>load_data\<close>.
\<close>

definition load_data ::
  "pandas \<Rightarrow> numpy \<Rightarrow> analyzer \<Rightarrow> world \<Rightarrow> (exn + dataframe) \<times> analyzer \<times> world" where
  "load_data pd np self w =
     (case (if exists (fs w) (data_path self)
            then (case read_csv pd (fs w) (data_path self) of
                    Inl e \<Rightarrow> (Inl e, self, w)
                  | Inr df \<Rightarrow>
                      (Inr df, self\<lparr>data := Some df\<rparr>,
                       logger INFO (DadosCarregados (shape df)) w))
            else generate_sample_data np self (logger WARNING ArquivoNaoEncontrado w)) of
        (Inr df, self', w') \<Rightarrow> (Inr df, self', w')
      | (Inl e, self', w') \<Rightarrow>
          generate_sample_data np self' (logger ERROR (ErroAoCarregar e) w'))"

text \<open>
  Lines 76-77 and 97-98: \<^verbatim>\<open>if self.data is None: self.load_data()\<close>. The table that
  \<^verbatim>\<open>load_data\<close> returns is dropped; the caller reads \<^verbatim>\<open>self.data\<close> afterwards.
\<close>

definition load_if_none ::
  "pandas \<Rightarrow> numpy \<Rightarrow> analyzer \<Rightarrow> world \<Rightarrow> (exn + unit) \<times> analyzer \<times> world" where
  "load_if_none pd np self w =
     (if data self = None
      then (case load_data pd np self w of
              (Inl e, self', w') \<Rightarrow> (Inl e, self', w')
            | (Inr _, self', w') \<Rightarrow> (Inr (), self', w'))
      else (Inr (), self, w))"

text \<open>
  A Python dict built by assigning its items in order: a key assigned again keeps its
  place and takes the new value.
\<close>

definition dict_of :: "('k \<times> 'v) list \<Rightarrow> ('k \<times> 'v) list" where
  "dict_of items = foldl (\<lambda>d (k, v). AList.update k v d) [] items"

text \<open>The values of the dict that \<^verbatim>\<open>analyze\<close> returns, by key.\<close>

datatype aval =
    ShapeV "nat \<times> nat"
  | ColumnsV "string list"
  | DtypesV "(string \<times> dtype) list"
  | MissingV "(string \<times> nat) list"
  | SummaryV summary
  | FreqV "(string \<times> (cell \<times> nat) list) list"

type_synonym analysis = "(string \<times> aval) list"

text \<open>
  The dict comprehension of lines 85-86:
  \<^verbatim>\<open>{col: self.data[col].value_counts().to_dict() for col in ...}\<close>.
\<close>

fun categorical_summary ::
  "dataframe \<Rightarrow> string list \<Rightarrow> (string \<times> (cell \<times> nat) list) list
     \<Rightarrow> exn + (string \<times> (cell \<times> nat) list) list" where
  "categorical_summary df [] acc = Inr acc"
| "categorical_summary df (col # rest) acc =
     (case getitem df col of
        Inl e \<Rightarrow> Inl e
      | Inr x \<Rightarrow>
          (case selection_value_counts x of
             Inl e \<Rightarrow> Inl e
           | Inr counts \<Rightarrow>
               categorical_summary df rest (AList.update col (to_dict counts) acc)))"

text \<open>
  The dict literal of lines 79-87, its items evaluated in the order written.
  \<^verbatim>\<open>describe\<close> is called only when a numeric column exists; otherwise the item is the
  empty dict \<^verbatim>\<open>{}\<close>.
\<close>

definition analysis_dict :: "pandas \<Rightarrow> dataframe \<Rightarrow> exn + analysis" where
  "analysis_dict pd df =
     (case (if length (columns (select_dtypes [np_number] df)) > 0
            then describe pd df else Inr []) of
        Inl e \<Rightarrow> Inl e
      | Inr numeric_summary \<Rightarrow>
          (case categorical_summary df
                  (columns (select_dtypes [sel_object, sel_category] df)) [] of
             Inl e \<Rightarrow> Inl e
           | Inr categorical \<Rightarrow>
               Inr [(''shape'', ShapeV (shape df)),
                    (''columns'', ColumnsV (columns df)),
                    (''dtypes'', DtypesV (dict_of (map (\<lambda>c. (cname c, cdtype c)) (cols df)))),
                    (''missing_values'',
                       MissingV (dict_of (map (\<lambda>c. (cname c, isnull_sum c)) (cols df)))),
                    (''numeric_summary'', SummaryV numeric_summary),
                    (''categorical_summary'', FreqV categorical)]))"

text \<open>\<^verbatim>\<open>analyze\<close> (lines 70-89).\<close>

definition analyze ::
  "pandas \<Rightarrow> numpy \<Rightarrow> analyzer \<Rightarrow> world \<Rightarrow> (exn + analysis) \<times> analyzer \<times> world" where
  "analyze pd np self w =
     (case load_if_none pd np self w of
        (Inl e, self', w') \<Rightarrow> (Inl e, self', w')
      | (Inr _, self', w') \<Rightarrow>
          (case data self' of
             None \<Rightarrow> (Inl AttributeError, self', w')
           | Some df \<Rightarrow> (analysis_dict pd df, self', w')))"

text \<open>
  The titles and labels of the plots. Python strings are sequences of code points:
  \<^verbatim>\<open>0xE7\<close>, \<^verbatim>\<open>0xE3\<close> and \<^verbatim>\<open>0xEA\<close> are the c-cedilla, a-tilde and e-circumflex of
  "Distribuicao" and "Frequencia" as the source spells them.
\<close>

definition Distribuicao_de :: "string \<Rightarrow> string" where
  "Distribuicao_de col = ''Distribui'' @ [CHR 0xE7, CHR 0xE3] @ ''o de '' @ col"

definition Frequencia :: string where
  "Frequencia = ''Frequ'' @ [CHR 0xEA] @ ''ncia''"

definition Contagem_de :: "string \<Rightarrow> string" where
  "Contagem_de col = ''Contagem de '' @ col"

text \<open>
  Line 116, \<^verbatim>\<open>self.data[col].hist(bins=30, ax=axes[i])\<close>: what is drawn, or the
  exception raised.
\<close>

definition selection_hist :: "selection \<Rightarrow> nat \<Rightarrow> exn + plot" where
  "selection_hist x bins =
     (case x of
        Series s \<Rightarrow> if hist_raises (cvalues s) then Inl ValueError else Inr (Hist (cvalues s) bins)
      | Frame cs \<Rightarrow>
          if list_ex (\<lambda>c. hist_raises (cvalues c)) cs then Inl ValueError
          else Inr (HistFrame (map cvalues cs) bins))"

text \<open>
  The loop of lines 114-119 over \<^verbatim>\<open>enumerate(numeric_cols)\<close>: the column labelled
  \<^verbatim>\<open>id\<close> is passed over, and its sub-plot stays as \<^verbatim>\<open>subplots\<close> made it.
\<close>

fun hist_loop :: "dataframe \<Rightarrow> (nat \<times> string) list \<Rightarrow> axes list \<Rightarrow> exn + axes list" where
  "hist_loop df [] axs = Inr axs"
| "hist_loop df ((i, col) # rest) axs =
     (if col \<noteq> ''id'' then
        (case getitem df col of
           Inl e \<Rightarrow> Inl e
         | Inr x \<Rightarrow>
             if i < length axs then
               (case selection_hist x 30 of
                  Inl e \<Rightarrow> Inl e
                | Inr h \<Rightarrow>
                    hist_loop df rest
                      (axs[i := (axs ! i)\<lparr>plots := plots (axs ! i) @ [h],
                                          title := Some (Distribuicao_de col),
                                          xlabel := Some col,
                                          ylabel := Some Frequencia\<rparr>]))
             else Inl IndexError)
      else hist_loop df rest axs)"

text \<open>
  Line 133, \<^verbatim>\<open>.plot(kind='bar', ax=axes[i])\<close> of a frequency table: pandas raises
  \<^verbatim>\<open>IndexError\<close> when the table is empty (a column with no value that is not missing).
\<close>

definition plot_bar :: "(cell \<times> nat) list \<Rightarrow> exn + plot" where
  "plot_bar counts = (if counts = [] then Inl IndexError else Inr (Bar counts))"

text \<open>The loop of lines 132-137 over \<^verbatim>\<open>enumerate(categorical_cols)\<close>.\<close>

fun bar_loop :: "dataframe \<Rightarrow> (nat \<times> string) list \<Rightarrow> axes list \<Rightarrow> exn + axes list" where
  "bar_loop df [] axs = Inr axs"
| "bar_loop df ((i, col) # rest) axs =
     (case getitem df col of
        Inl e \<Rightarrow> Inl e
      | Inr x \<Rightarrow>
          (case selection_value_counts x of
             Inl e \<Rightarrow> Inl e
           | Inr counts \<Rightarrow>
               if i < length axs then
                 (case plot_bar counts of
                    Inl e \<Rightarrow> Inl e
                  | Inr b \<Rightarrow>
                      bar_loop df rest
                        (axs[i := (axs ! i)\<lparr>plots := plots (axs ! i) @ [b],
                                            title := Some (Contagem_de col),
                                            xlabel := Some col,
                                            ylabel := Some ''Contagem'',
                                            xtick_rotation := Some 45\<rparr>]))
               else Inl IndexError))"

text \<open>
  Lines 107-123, the first figure: made and saved when the table has a numeric column,
  whatever its label.
\<close>

definition plot_distribuicoes :: "dataframe \<Rightarrow> path \<Rightarrow> filesys \<Rightarrow> exn + filesys" where
  "plot_distribuicoes df save_dir fs0 =
     (let numeric_cols = columns (select_dtypes [np_number] df) in
      if length numeric_cols > 0 then
        (case hist_loop df (enumerate 0 numeric_cols) (subplots (length numeric_cols)) of
           Inl e \<Rightarrow> Inl e
         | Inr axs \<Rightarrow> savefig fs0 (path_div save_dir ''distribuicoes.png'') axs 300 ''tight'')
      else Inr fs0)"

text \<open>Lines 125-141, the second figure.\<close>

definition plot_categoricas :: "dataframe \<Rightarrow> path \<Rightarrow> filesys \<Rightarrow> exn + filesys" where
  "plot_categoricas df save_dir fs0 =
     (let categorical_cols = columns (select_dtypes [sel_object, sel_category, sel_bool] df) in
      if length categorical_cols > 0 then
        (case bar_loop df (enumerate 0 categorical_cols)
                (subplots (length categorical_cols)) of
           Inl e \<Rightarrow> Inl e
         | Inr axs \<Rightarrow> savefig fs0 (path_div save_dir ''categoricas.png'') axs 300 ''tight'')
      else Inr fs0)"

text \<open>
  \<^verbatim>\<open>create_visualizations\<close> (lines 91-143). Nothing in it catches an exception. The
  style and palette settings, \<^verbatim>\<open>tight_layout\<close> and \<^verbatim>\<open>close\<close> change no table, file or
  sub-plot content and are left out; so are the exceptions of matplotlib that the two
  above do not name, which is why the statements below on what the visualizations leave
  are about the runs that complete.
\<close>

definition create_visualizations ::
  "pandas \<Rightarrow> numpy \<Rightarrow> string \<Rightarrow> analyzer \<Rightarrow> world \<Rightarrow> (exn + unit) \<times> analyzer \<times> world" where
  "create_visualizations pd np save_path self w =
     (case load_if_none pd np self w of
        (Inl e, self', w') \<Rightarrow> (Inl e, self', w')
      | (Inr _, self', w') \<Rightarrow>
          (let save_dir = Path save_path in
           case mkdir_exist_ok (fs w') save_dir of
             Inl e \<Rightarrow> (Inl e, self', w')
           | Inr fs1 \<Rightarrow>
               (case data self' of
                  None \<Rightarrow> (Inl AttributeError, self', w'\<lparr>fs := fs1\<rparr>)
                | Some df \<Rightarrow>
                    (case plot_distribuicoes df save_dir fs1 of
                       Inl e \<Rightarrow> (Inl e, self', w'\<lparr>fs := fs1\<rparr>)
                     | Inr fs2 \<Rightarrow>
                         (case plot_categoricas df save_dir fs2 of
                            Inl e \<Rightarrow> (Inl e, self', w'\<lparr>fs := fs2\<rparr>)
                          | Inr fs3 \<Rightarrow>
                              (Inr (), self',
                               logger INFO (VisualizacoesSalvas save_dir)
                                 (w'\<lparr>fs := fs3\<rparr>)))))))"

section \<open>Instances\<close>

text \<open>
  The table of lines 58-66 for given draws of \<^verbatim>\<open>categoria\<close>, \<^verbatim>\<open>valor\<close> and
  \<^verbatim>\<open>ativo\<close>, as \<^verbatim>\<open>pd.DataFrame\<close> builds it when they have 1000 entries each.
\<close>

definition sample_frame :: "cell list \<Rightarrow> float64 list \<Rightarrow> cell list \<Rightarrow> dataframe" where
  "sample_frame categoria valor ativo =
     \<lparr>nrows = 1000,
      cols = [\<lparr>cname = ''id'', cdtype = Int64, cvalues = map IntC [1..1000]\<rparr>,
              \<lparr>cname = ''categoria'', cdtype = Object, cvalues = categoria\<rparr>,
              \<lparr>cname = ''valor'', cdtype = Float64, cvalues = map FloatC valor\<rparr>,
              \<lparr>cname = ''data'', cdtype = Datetime64,
               cvalues = date_range d2023_01_01 1000\<rparr>,
              \<lparr>cname = ''ativo'', cdtype = Bool, cvalues = ativo\<rparr>]\<rparr>"

text \<open>
  A generator that meets \<^const>\<open>np_contract\<close>: its state is a counter, \<^verbatim>\<open>choice\<close> walks
  round the list it is given and \<^verbatim>\<open>normal\<close> returns its mean.
\<close>

definition np_cycle :: numpy where
  "np_cycle =
     \<lparr>random_seed = (\<lambda>s. s),
      random_choice = (\<lambda>g a n. (map (\<lambda>k. a ! ((g + k) mod length a)) [0..<n], g + n)),
      random_choice_p = (\<lambda>g a n p. (map (\<lambda>k. a ! ((g + k) mod length a)) [0..<n], g + n)),
      random_normal = (\<lambda>g loc scale n. (replicate n loc, g + n))\<rparr>"

text \<open>A pandas whose \<^verbatim>\<open>read_csv\<close> rejects every file and whose \<^verbatim>\<open>describe\<close> is empty.\<close>

definition pd_reject :: pandas where
  "pd_reject =
     \<lparr>read_csv = (\<lambda>fs p. Inl (LibraryError ''EmptyDataError'')),
      describe = (\<lambda>df. Inr [])\<rparr>"

text \<open>A world whose file system holds the working directory only, writable.\<close>

definition w0 :: world where
  "w0 = \<lparr>rng = 0, fs = \<lparr>dirs = {[]}, files = Map.empty, writable = {[]}\<rparr>, logs = []\<rparr>"

text \<open>
  A three-row miniature of the sample table, the table of an \<^verbatim>\<open>id\<close> column alone, and
  a table of one text column.
\<close>

definition small_frame :: dataframe where
  "small_frame =
     \<lparr>nrows = 3,
      cols = [\<lparr>cname = ''id'', cdtype = Int64, cvalues = [IntC 1, IntC 2, IntC 3]\<rparr>,
              \<lparr>cname = ''categoria'', cdtype = Object,
               cvalues = [StrC ''A'', StrC ''B'', StrC ''A'']\<rparr>,
              \<lparr>cname = ''valor'', cdtype = Float64,
               cvalues = [FloatC f100, FloatC f25, FloatC f100]\<rparr>,
              \<lparr>cname = ''data'', cdtype = Datetime64,
               cvalues = [DateC 19358, DateC 19359, DateC 19360]\<rparr>,
              \<lparr>cname = ''ativo'', cdtype = Bool,
               cvalues = [BoolC True, BoolC False, BoolC True]\<rparr>]\<rparr>"

definition id_frame :: dataframe where
  "id_frame =
     \<lparr>nrows = 3,
      cols = [\<lparr>cname = ''id'', cdtype = Int64, cvalues = [IntC 1, IntC 2, IntC 3]\<rparr>]\<rparr>"

definition text_frame :: dataframe where
  "text_frame =
     \<lparr>nrows = 3,
      cols = [\<lparr>cname = ''nome'', cdtype = Object,
               cvalues = [StrC ''x'', StrC ''y'', StrC ''x'']\<rparr>]\<rparr>"

text \<open>
  Two more worlds: one where the directory \<^verbatim>\<open>plots\<close> exists already, one where the
  working directory may not be written to.
\<close>

definition w_plots :: world where
  "w_plots =
     \<lparr>rng = 0,
      fs = \<lparr>dirs = {[], [''plots'']}, files = Map.empty, writable = {[], [''plots'']}\<rparr>,
      logs = []\<rparr>"


text \<open>
  A file that holds a header line and no row, the table \<^verbatim>\<open>read_csv\<close> makes of it (one
  \<^verbatim>\<open>object\<close> column, zero rows), a pandas that reads it so, and a world that has the
  file at the default path.
\<close>

definition header_frame :: dataframe where
  "header_frame = \<lparr>nrows = 0, cols = [\<lparr>cname = ''a'', cdtype = Object, cvalues = []\<rparr>]\<rparr>"

definition pd_header_only :: pandas where
  "pd_header_only =
     \<lparr>read_csv = (\<lambda>fs p. if files fs p = Some (Text ''a'') then Inr header_frame
                           else Inl (LibraryError ''ParserError'')),
      describe = (\<lambda>df. Inr [])\<rparr>"

definition w_csv :: world where
  "w_csv =
     \<lparr>rng = 0,
      fs = \<lparr>dirs = {[], [''data'']},
             files = [[''data'', ''sample_data.csv''] \<mapsto> Text ''a''],
             writable = {[], [''data'']}\<rparr>,
      logs = []\<rparr>"

text \<open>
  The values that \<^const>\<open>value_counts\<close> lists, in the order it meets them before the
  table is sorted by count.
\<close>

definition vc_keys :: "column \<Rightarrow> cell list" where
  "vc_keys s = (case cdtype s of
                    Category cats \<Rightarrow> cats
                  | _ \<Rightarrow> first_seen [] (filter (\<lambda>v. \<not> isnull v) (cvalues s)))"

section \<open>Lemmas on the tables and the loops\<close>

subsection \<open>Columns by label\<close>

lemma filter_distinct_names:
  "distinct (map cname cs) \<Longrightarrow> c \<in> set cs \<Longrightarrow> filter (\<lambda>x. cname x = cname c) cs = [c]"
proof (induction cs)
  case Nil
  then show ?case by simp
next
  case (Cons a cs)
  show ?case
  proof (cases "a = c")
    case True
    with Cons.prems have "\<forall>x \<in> set cs. cname x \<noteq> cname c" by (auto simp: image_iff)
    then have "filter (\<lambda>x. cname x = cname c) cs = []" by (simp add: filter_empty_conv)
    with True show ?thesis by simp
  next
    case False
    with Cons.prems have "c \<in> set cs" by simp
    with Cons.prems have "cname a \<noteq> cname c" by (auto simp: image_iff)
    with Cons \<open>c \<in> set cs\<close> show ?thesis by simp
  qed
qed

lemma getitem_distinct:
  "distinct (columns df) \<Longrightarrow> c \<in> set (cols df) \<Longrightarrow> getitem df (cname c) = Inr (Series c)"
  by (simp add: getitem_def columns_def filter_distinct_names)

lemma columns_select_subset:
  "set (columns (select_dtypes sel df)) \<subseteq> set (columns df)"
  by (auto simp: columns_def select_dtypes_def)

subsection \<open>Paths\<close>

lemma Path_distribuicoes: "Path ''distribuicoes.png'' = [''distribuicoes.png'']"
  by (simp add: Path_def)

lemma Path_categoricas: "Path ''categoricas.png'' = [''categoricas.png'']"
  by (simp add: Path_def)

lemma path_div_distribuicoes: "path_div p ''distribuicoes.png'' = p @ [''distribuicoes.png'']"
  by (simp add: path_div_def Path_distribuicoes)

lemma path_div_categoricas: "path_div p ''categoricas.png'' = p @ [''categoricas.png'']"
  by (simp add: path_div_def Path_categoricas)

lemma parent_child: "name \<noteq> ''/'' \<Longrightarrow> parent (p @ [name]) = p"
  by (simp add: parent_def)

subsection \<open>The generated table\<close>

lemma isfinite_f100: "isfinite f100" unfolding isfinite_def f100_def by simp

lemma isfinite_f25: "isfinite f25" unfolding isfinite_def f25_def by simp

lemma five_cols: "Suc (Suc (Suc (Suc (Suc 0)))) = 5" by simp

lemma generate_sample_data_ok:
  assumes "np_contract np"
  shows "\<exists>categoria valor ativo w'.
     generate_sample_data np self w =
       (Inr (sample_frame categoria valor ativo),
        self\<lparr>data := Some (sample_frame categoria valor ativo)\<rparr>, w') \<and>
     length categoria = 1000 \<and>
     set categoria \<subseteq> {StrC ''A'', StrC ''B'', StrC ''C'', StrC ''D''} \<and>
     length valor = 1000 \<and> list_all (\<lambda>x. \<not> isnan x) valor \<and>
     length ativo = 1000 \<and> set ativo \<subseteq> {BoolC True, BoolC False}"
proof -
  let ?g0 = "random_seed np 42"
  let ?abcd = "[StrC ''A'', StrC ''B'', StrC ''C'', StrC ''D'']"
  obtain categoria g1 where c: "random_choice np ?g0 ?abcd 1000 = (categoria, g1)"
    by (cases "random_choice np ?g0 ?abcd 1000")
  obtain valor g2 where v: "random_normal np g1 f100 f25 1000 = (valor, g2)"
    by (cases "random_normal np g1 f100 f25 1000")
  obtain ativo g3 where a:
    "random_choice_p np g2 [BoolC True, BoolC False] 1000 [f07, f03] = (ativo, g3)"
    by (cases "random_choice_p np g2 [BoolC True, BoolC False] 1000 [f07, f03]")
  from assms have c1: "length categoria = 1000" and c2: "set categoria \<subseteq> set ?abcd"
    using c unfolding np_contract_def by (metis fst_conv list.distinct(1))+
  from assms have v1: "length valor = 1000" and v2: "list_all (\<lambda>x. \<not> isnan x) valor"
    using v unfolding np_contract_def by (metis fst_conv isfinite_f100 isfinite_f25)+
  from assms have a1: "length ativo = 1000"
    and a2: "set ativo \<subseteq> set [BoolC True, BoolC False]"
    using a unfolding np_contract_def by (metis fst_conv list.distinct(1))+
  have "generate_sample_data np self w =
      (Inr (sample_frame categoria valor ativo),
       self\<lparr>data := Some (sample_frame categoria valor ativo)\<rparr>,
       logger INFO (DadosDeExemploGerados (1000, 5)) (w\<lparr>rng := g3\<rparr>))"
    using c v a c1 v1 a1
    by (simp add: generate_sample_data_def DataFrame_def date_range_def shape_def five_cols
        sample_frame_def)
  with c1 c2 v1 v2 a1 a2 show ?thesis by auto
qed

lemma isnull_sum_sample_frame:
  assumes "set categoria \<subseteq> {StrC ''A'', StrC ''B'', StrC ''C'', StrC ''D''}"
    and "list_all (\<lambda>x. \<not> isnan x) valor"
    and "set ativo \<subseteq> {BoolC True, BoolC False}"
  shows "list_all (\<lambda>c. isnull_sum c = 0) (cols (sample_frame categoria valor ativo))"
proof -
  have 1: "filter isnull (map IntC xs) = []" for xs by (induction xs) auto
  have 2: "filter isnull categoria = []" using assms(1) by (auto simp: filter_empty_conv)
  have 3: "filter isnull (map FloatC valor) = []"
    using assms(2) by (auto simp: filter_empty_conv list_all_iff)
  have 4: "filter isnull (date_range s n) = []" for s n
    by (auto simp: filter_empty_conv date_range_def)
  have 5: "filter isnull ativo = []" using assms(3) by (auto simp: filter_empty_conv)
  show ?thesis by (simp add: sample_frame_def isnull_sum_def 1 2 3 4 5)
qed

lemma distinct_ids: "distinct (map IntC [1..1000])"
  by (simp add: distinct_map inj_on_def)

lemma isfinite_not_isnan: "isfinite x \<Longrightarrow> \<not> isnan x"
  by (simp add: isfinite_def isnan_def)

lemma np_cycle_contract: "np_contract np_cycle"
  by (auto simp: np_contract_def np_cycle_def list_all_iff isfinite_not_isnan)

subsection \<open>Loading\<close>

lemma generate_sample_data_fst:
  "fst (generate_sample_data np self1 w1) = fst (generate_sample_data np self2 w2)"
  by (simp add: generate_sample_data_def Let_def logger_def split: prod.splits sum.splits)

lemma generate_sample_data_data:
  "generate_sample_data np self w = (Inr df, self', w') \<Longrightarrow> data self' = Some df"
  by (auto simp: generate_sample_data_def Let_def split: prod.splits sum.splits)

lemma load_data_data:
  "load_data pd np self w = (Inr df, self', w') \<Longrightarrow> data self' = Some df"
  by (auto simp: load_data_def split: if_splits sum.splits prod.splits
      dest: generate_sample_data_data)


lemma shape_sample_frame: "shape (sample_frame categoria valor ativo) = (1000, 5)"
  by (simp add: shape_def sample_frame_def)

lemma load_data_fallback:
  assumes "np_contract np"
    and "\<not> exists (fs w) (data_path self) \<or> (\<exists>e. read_csv pd (fs w) (data_path self) = Inl e)"
  shows "\<exists>df w'.
     load_data pd np self w = (Inr df, self\<lparr>data := Some df\<rparr>, w') \<and>
     fst (generate_sample_data np self w) = Inr df \<and> shape df = (1000, 5)"
proof (cases "exists (fs w) (data_path self)")
  case False
  let ?w = "logger WARNING ArquivoNaoEncontrado w"
  from generate_sample_data_ok [OF assms(1), of self ?w]
  obtain categoria valor ativo w' where
    g: "generate_sample_data np self ?w =
       (Inr (sample_frame categoria valor ativo),
        self\<lparr>data := Some (sample_frame categoria valor ativo)\<rparr>, w')"
    by blast
  have "fst (generate_sample_data np self w) = Inr (sample_frame categoria valor ativo)"
    using generate_sample_data_fst [of np self w self ?w] g by simp
  with False g show ?thesis by (simp add: load_data_def shape_sample_frame)
next
  case True
  with assms(2) obtain e where e: "read_csv pd (fs w) (data_path self) = Inl e" by blast
  let ?w = "logger ERROR (ErroAoCarregar e) w"
  from generate_sample_data_ok [OF assms(1), of self ?w]
  obtain categoria valor ativo w' where
    g: "generate_sample_data np self ?w =
       (Inr (sample_frame categoria valor ativo),
        self\<lparr>data := Some (sample_frame categoria valor ativo)\<rparr>, w')"
    by blast
  have "fst (generate_sample_data np self w) = Inr (sample_frame categoria valor ativo)"
    using generate_sample_data_fst [of np self w self ?w] g by simp
  with True e g show ?thesis by (simp add: load_data_def shape_sample_frame)
qed

lemma load_data_parsed:
  assumes "exists (fs w) (data_path self)" and "read_csv pd (fs w) (data_path self) = Inr t"
  shows "load_data pd np self w =
     (Inr t, self\<lparr>data := Some t\<rparr>, logger INFO (DadosCarregados (shape t)) w)"
  using assms by (simp add: load_data_def)

lemma not_exists_w0: "\<not> exists (fs w0) (Path ''arquivo_inexistente.csv'')"
  by (simp add: exists_def w0_def Path_def)

subsection \<open>The sub-plots of a table with unique labels\<close>

lemma hist_loop_distinct:
  assumes "distinct (columns df)"
  shows "set cs \<subseteq> set (cols df) \<Longrightarrow> length axs = k + length cs \<Longrightarrow>
     hist_loop df (enumerate k (map cname cs)) axs = Inr r \<Longrightarrow>
     r = take k axs @ map2 (\<lambda>c a. if cname c \<noteq> ''id''
                        then a\<lparr>plots := plots a @ [Hist (cvalues c) 30],
                               title := Some (Distribuicao_de (cname c)),
                               xlabel := Some (cname c),
                               ylabel := Some Frequencia\<rparr>
                        else a) cs (drop k axs)"
proof (induction cs arbitrary: k axs)
  case Nil
  then show ?case by simp
next
  case (Cons c cs)
  from Cons.prems have k: "k < length axs" by simp
  have g: "getitem df (cname c) = Inr (Series c)"
    using getitem_distinct [OF assms] Cons.prems by simp
  have d: "drop k axs = axs ! k # drop (Suc k) axs"
    using k by (simp add: Cons_nth_drop_Suc)
  show ?case
  proof (cases "cname c = ''id''")
    case True
    with Cons.prems have "hist_loop df (enumerate (Suc k) (map cname cs)) axs = Inr r"
      by simp
    then have "r = take (Suc k) axs @ map2 (\<lambda>c a. if cname c \<noteq> ''id''
                        then a\<lparr>plots := plots a @ [Hist (cvalues c) 30],
                               title := Some (Distribuicao_de (cname c)),
                               xlabel := Some (cname c),
                               ylabel := Some Frequencia\<rparr>
                        else a) cs (drop (Suc k) axs)"
      using Cons.IH [of axs "Suc k"] Cons.prems by simp
    with True k d show ?thesis by (simp add: take_Suc_conv_app_nth)
  next
    case False
    let ?a = "(axs ! k)\<lparr>plots := plots (axs ! k) @ [Hist (cvalues c) 30],
                          title := Some (Distribuicao_de (cname c)),
                          xlabel := Some (cname c),
                          ylabel := Some Frequencia\<rparr>"
    let ?axs = "axs[k := ?a]"
    from Cons.prems(3) False g k
    have h: "\<not> hist_raises (cvalues c)"
      and l: "hist_loop df (enumerate (Suc k) (map cname cs)) ?axs = Inr r"
      by (auto simp: selection_hist_def split: if_splits)
    from l have "r = take (Suc k) ?axs @ map2 (\<lambda>c a. if cname c \<noteq> ''id''
                        then a\<lparr>plots := plots a @ [Hist (cvalues c) 30],
                               title := Some (Distribuicao_de (cname c)),
                               xlabel := Some (cname c),
                               ylabel := Some Frequencia\<rparr>
                        else a) cs (drop (Suc k) ?axs)"
      using Cons.IH [of ?axs "Suc k"] Cons.prems by simp
    moreover have "take (Suc k) ?axs = take k axs @ [?a]"
      using k by (simp add: take_Suc_conv_app_nth)
    ultimately show ?thesis using False k d by simp
  qed
qed

lemma map2_replicate: "length cs = n \<Longrightarrow> map2 f cs (replicate n a) = map (\<lambda>c. f c a) cs"
  by (induction cs arbitrary: n) auto

lemma hist_loop_subplots:
  assumes "distinct (columns df)" and "set cs \<subseteq> set (cols df)"
    and "hist_loop df (enumerate 0 (map cname cs)) (subplots (length cs)) = Inr r"
  shows "r = map (\<lambda>c. if cname c = ''id'' then new_axes
                    else \<lparr>plots = [Hist (cvalues c) 30],
                          title = Some (Distribuicao_de (cname c)),
                          xlabel = Some (cname c),
                          ylabel = Some Frequencia,
                          xtick_rotation = None\<rparr>) cs"
  using hist_loop_distinct [OF assms(1) assms(2) _ assms(3)]
  by (simp add: subplots_def map2_replicate new_axes_def cong: map_cong)

subsection \<open>Directories and saved figures\<close>

lemma savefig_Inr:
  "savefig fs0 q fig d b = Inr fs' \<Longrightarrow> fs' = fs0\<lparr>files := (files fs0)(q \<mapsto> Image fig d b)\<rparr>"
  by (auto simp: savefig_def split: if_splits)

lemma mkdir_exist_ok_Inr:
  "mkdir_exist_ok fs0 p = Inr fs' \<Longrightarrow>
   files fs' = files fs0 \<and> p \<in> dirs fs' \<and> dirs fs' = insert p (dirs fs0) \<and>
   (p \<in> dirs fs0 \<longrightarrow> fs' = fs0) \<and> (p \<in> writable fs0 \<longrightarrow> p \<in> writable fs')"
  by (auto simp: mkdir_exist_ok_def os_mkdir_def is_dir_def exists_def
      split: if_splits sum.splits exn.splits)


lemma mkdir_exist_ok_creates:
  "\<not> exists fs0 p \<Longrightarrow> parent p \<in> dirs fs0 \<Longrightarrow> parent p \<in> writable fs0 \<Longrightarrow>
   mkdir_exist_ok fs0 p = Inr (fs0\<lparr>dirs := insert p (dirs fs0), writable := insert p (writable fs0)\<rparr>)"
  by (simp add: mkdir_exist_ok_def os_mkdir_def)


lemma select_dtypes_cols_subset: "set (cols (select_dtypes sel df)) \<subseteq> set (cols df)"
  by (auto simp: select_dtypes_def)

lemma columns_select: "columns (select_dtypes sel df) = map cname (cols (select_dtypes sel df))"
  by (simp add: columns_def)


lemma plot_categoricas_Inr:
  assumes "plot_categoricas df p fs0 = Inr fs'"
  shows "dirs fs' = dirs fs0 \<and> writable fs' = writable fs0 \<and>
     (\<forall>q. q \<noteq> p @ [''categoricas.png''] \<longrightarrow> files fs' q = files fs0 q) \<and>
     (if cols (select_dtypes [sel_object, sel_category, sel_bool] df) = [] then fs' = fs0
      else \<exists>fig. files fs' (p @ [''categoricas.png'']) = Some (Image fig 300 ''tight''))"
proof (cases "cols (select_dtypes [sel_object, sel_category, sel_bool] df) = []")
  case True
  with assms show ?thesis by (simp add: plot_categoricas_def columns_def)
next
  case False
  with assms obtain fig where
    "savefig fs0 (p @ [''categoricas.png'']) fig 300 ''tight'' = Inr fs'"
    by (auto simp: plot_categoricas_def Let_def columns_def path_div_categoricas
        split: sum.splits)
  from savefig_Inr [OF this] False show ?thesis by auto
qed

lemma plot_distribuicoes_Inr:
  assumes "plot_distribuicoes df p fs0 = Inr fs'"
  shows "dirs fs' = dirs fs0 \<and> writable fs' = writable fs0 \<and>
     (\<forall>q. q \<noteq> p @ [''distribuicoes.png''] \<longrightarrow> files fs' q = files fs0 q) \<and>
     (if cols (select_dtypes [np_number] df) = [] then fs' = fs0
      else \<exists>fig. files fs' (p @ [''distribuicoes.png'']) = Some (Image fig 300 ''tight''))"
proof (cases "cols (select_dtypes [np_number] df) = []")
  case True
  with assms show ?thesis by (simp add: plot_distribuicoes_def columns_def)
next
  case False
  with assms obtain fig where
    "savefig fs0 (p @ [''distribuicoes.png'']) fig 300 ''tight'' = Inr fs'"
    by (auto simp: plot_distribuicoes_def Let_def columns_def path_div_distribuicoes
        split: sum.splits)
  from savefig_Inr [OF this] False show ?thesis by auto
qed

lemma plot_distribuicoes_distinct_Inr:
  assumes "distinct (columns df)" and "plot_distribuicoes df p fs0 = Inr fs'"
    and "cols (select_dtypes [np_number] df) \<noteq> []"
  shows "files fs' (p @ [''distribuicoes.png'']) =
     Some (Image
             (map (\<lambda>c. if cname c = ''id'' then new_axes
                    else \<lparr>plots = [Hist (cvalues c) 30],
                          title = Some (Distribuicao_de (cname c)),
                          xlabel = Some (cname c),
                          ylabel = Some Frequencia,
                          xtick_rotation = None\<rparr>) (cols (select_dtypes [np_number] df)))
             300 ''tight'')"
proof -
  let ?cs = "cols (select_dtypes [np_number] df)"
  from assms(2,3) obtain axs where
    h: "hist_loop df (enumerate 0 (map cname ?cs)) (subplots (length ?cs)) = Inr axs"
    and s: "savefig fs0 (p @ [''distribuicoes.png'']) axs 300 ''tight'' = Inr fs'"
    by (auto simp: plot_distribuicoes_def Let_def columns_select path_div_distribuicoes
        split: sum.splits)
  from hist_loop_subplots [OF assms(1) select_dtypes_cols_subset h]
  have "axs = (map (\<lambda>c. if cname c = ''id'' then new_axes
                    else \<lparr>plots = [Hist (cvalues c) 30],
                          title = Some (Distribuicao_de (cname c)),
                          xlabel = Some (cname c),
                          ylabel = Some Frequencia,
                          xtick_rotation = None\<rparr>) (cols (select_dtypes [np_number] df)))" .
  with savefig_Inr [OF s] show ?thesis by simp
qed

subsection \<open>Runs on the example tables\<close>

lemma Path_plots: "Path ''plots/'' = [''plots'']"
  by (simp add: Path_def)

lemma id_frame_run:
  "create_visualizations pd np ''plots/'' (self\<lparr>data := Some id_frame\<rparr>) w_plots =
     (Inr (), self\<lparr>data := Some id_frame\<rparr>,
      logger INFO (VisualizacoesSalvas [''plots''])
        (w_plots\<lparr>fs := (fs w_plots)\<lparr>files :=
            [[''plots'', ''distribuicoes.png''] \<mapsto> Image [new_axes] 300 ''tight'']\<rparr>\<rparr>))"
  by (simp add: create_visualizations_def load_if_none_def Path_plots mkdir_exist_ok_def
      os_mkdir_def exists_def is_dir_def w_plots_def id_frame_def plot_distribuicoes_def
      plot_categoricas_def select_dtypes_def columns_def subplots_def savefig_def
      path_div_distribuicoes parent_def Let_def)

lemma small_frame_run:
  "create_visualizations pd np ''plots/'' (self\<lparr>data := Some small_frame\<rparr>) w_plots =
     (Inr (), self\<lparr>data := Some small_frame\<rparr>,
      logger INFO (VisualizacoesSalvas [''plots''])
        (w_plots\<lparr>fs := (fs w_plots)\<lparr>files :=
            [[''plots'', ''distribuicoes.png''] \<mapsto>
               Image [new_axes,
                      \<lparr>plots = [Hist [FloatC f100, FloatC f25, FloatC f100] 30],
                       title = Some (Distribuicao_de ''valor''),
                       xlabel = Some ''valor'',
                       ylabel = Some Frequencia,
                       xtick_rotation = None\<rparr>] 300 ''tight'',
             [''plots'', ''categoricas.png''] \<mapsto>
               Image [\<lparr>plots = [Bar [(StrC ''A'', 2), (StrC ''B'', 1)]],
                       title = Some (Contagem_de ''categoria''),
                       xlabel = Some ''categoria'',
                       ylabel = Some ''Contagem'',
                       xtick_rotation = Some 45\<rparr>,
                      \<lparr>plots = [Bar [(BoolC True, 2), (BoolC False, 1)]],
                       title = Some (Contagem_de ''ativo''),
                       xlabel = Some ''ativo'',
                       ylabel = Some ''Contagem'',
                       xtick_rotation = Some 45\<rparr>] 300 ''tight'']\<rparr>\<rparr>))"
  by (simp add: create_visualizations_def load_if_none_def Path_plots mkdir_exist_ok_def
      os_mkdir_def exists_def is_dir_def w_plots_def small_frame_def plot_distribuicoes_def
      plot_categoricas_def select_dtypes_def columns_def subplots_def savefig_def
      path_div_distribuicoes path_div_categoricas parent_def getitem_def new_axes_def
      value_counts_def Let_def selection_hist_def hist_raises_def isinf_def f100_def f25_def
      selection_value_counts_def plot_bar_def py_eq_def)
     (simp add: numeral_2_eq_2)

subsection \<open>What a run of the visualizations leaves\<close>

lemma generate_sample_data_fs: "fs (snd (snd (generate_sample_data np self w))) = fs w"
  by (simp add: generate_sample_data_def Let_def logger_def split: prod.splits sum.splits)

lemma load_data_fs: "fs (snd (snd (load_data pd np self w))) = fs w"
proof -
  have g: "generate_sample_data np s v = (r, s', v') \<Longrightarrow> fs v' = fs v" for s v r s' v'
    using generate_sample_data_fs [of np s v] by simp
  show ?thesis
    by (auto simp: load_data_def generate_sample_data_fs logger_def
        split: sum.splits prod.splits dest!: g)
qed

lemma load_if_none_fs: "load_if_none pd np self w = (r, self', w') \<Longrightarrow> fs w' = fs w"
  using load_data_fs [of pd np self w]
  by (auto simp: load_if_none_def split: if_splits sum.splits prod.splits)

lemma create_visualizations_Inr:
  assumes "create_visualizations pd np save_path self w = (Inr (), self', w')"
  shows "\<exists>w1 fs1 fs2 df.
     load_if_none pd np self w = (Inr (), self', w1) \<and> data self' = Some df \<and>
     mkdir_exist_ok (fs w) (Path save_path) = Inr fs1 \<and>
     plot_distribuicoes df (Path save_path) fs1 = Inr fs2 \<and>
     plot_categoricas df (Path save_path) fs2 = Inr (fs w')"
proof -
  obtain r s1 w1 where l: "load_if_none pd np self w = (r, s1, w1)"
    by (cases "load_if_none pd np self w")
  have f: "fs w1 = fs w" using load_if_none_fs [OF l] .
  from assms l f show ?thesis
    by (auto simp: create_visualizations_def Let_def logger_def
        split: sum.splits option.splits)
qed


lemma parent_plots: "parent [''plots''] = []"
  by (simp add: parent_def)

subsection \<open>Loading on demand\<close>

lemma load_if_none_load:
  "data self = None \<Longrightarrow>
   load_if_none pd np self w =
     (case load_data pd np self w of
        (Inl e, s, w1) \<Rightarrow> (Inl e, s, w1)
      | (Inr df, s, w1) \<Rightarrow> (Inr (), s, w1))"
  by (simp add: load_if_none_def)

lemma load_if_none_some: "data self = Some df \<Longrightarrow> load_if_none pd np self w = (Inr (), self, w)"
  by (simp add: load_if_none_def)

subsection \<open>Equality of cells, dicts and frequency tables\<close>

lemma isnull_iff_key: "isnull v = (key v = None \<or> key v = Some KNone)"
  by (cases v) auto

lemma py_eq_isnull: "py_eq a b \<Longrightarrow> isnull a = isnull b"
  by (auto simp: py_eq_def isnull_iff_key)

lemma py_eq_filter: "py_eq k v \<Longrightarrow> filter (py_eq k) vs = filter (py_eq v) vs"
  by (rule filter_cong) (auto simp: py_eq_def)

lemma py_eq_count_nonnull:
  assumes "\<not> isnull k"
  shows "length (filter (py_eq k) (filter (\<lambda>v. \<not> isnull v) vs)) = length (filter (py_eq k) vs)"
proof -
  have "filter (py_eq k) (filter (\<lambda>v. \<not> isnull v) vs) = filter (py_eq k) vs"
    using assms py_eq_isnull [of k] by (induction vs) auto
  then show ?thesis by simp
qed

lemma first_seen_subset: "set (first_seen seen xs) \<subseteq> set xs"
  by (induction xs arbitrary: seen) auto

lemma first_seen_fresh: "x \<in> set (first_seen seen xs) \<Longrightarrow> key x \<notin> set seen"
proof (induction xs arbitrary: seen)
  case Nil
  then show ?case by simp
next
  case (Cons a xs)
  show ?case
  proof (cases "key a \<in> set seen")
    case True
    with Cons show ?thesis by simp
  next
    case False
    with Cons.prems have "x = a \<or> x \<in> set (first_seen (key a # seen) xs)" by simp
    then show ?thesis
    proof
      assume "x = a"
      with False show ?thesis by simp
    next
      assume "x \<in> set (first_seen (key a # seen) xs)"
      from Cons.IH [OF this] show ?thesis by simp
    qed
  qed
qed

lemma first_seen_distinct: "distinct (map key (first_seen seen xs))"
proof (induction xs arbitrary: seen)
  case Nil
  then show ?case by simp
next
  case (Cons a xs)
  show ?case
  proof (cases "key a \<in> set seen")
    case True
    with Cons show ?thesis by simp
  next
    case False
    have "key a \<notin> key ` set (first_seen (key a # seen) xs)"
    proof
      assume "key a \<in> key ` set (first_seen (key a # seen) xs)"
      then obtain x where "x \<in> set (first_seen (key a # seen) xs)" and "key x = key a"
        by auto
      with first_seen_fresh [of x "key a # seen" xs] show False by simp
    qed
    with False Cons.IH [of "key a # seen"] show ?thesis by simp
  qed
qed

lemma first_seen_covers:
  "x \<in> set xs \<Longrightarrow> key x \<notin> set seen \<Longrightarrow> \<exists>k \<in> set (first_seen seen xs). key k = key x"
proof (induction xs arbitrary: seen)
  case Nil
  then show ?case by simp
next
  case (Cons a xs)
  show ?case
  proof (cases "key a \<in> set seen")
    case True
    with Cons.prems have "x \<in> set xs" by auto
    from Cons.IH [OF this Cons.prems(2)] True show ?thesis by simp
  next
    case False
    show ?thesis
    proof (cases "key x = key a")
      case True
      with False show ?thesis by simp
    next
      case ne: False
      with Cons.prems have "x \<in> set xs" and "key x \<notin> set (key a # seen)" by auto
      from Cons.IH [OF this] False show ?thesis by auto
    qed
  qed
qed

lemma py_update_fresh:
  "\<forall>k' \<in> fst ` set d. \<not> py_eq k' k \<Longrightarrow> py_update k v d = d @ [(k, v)]"
  by (induction d) auto

lemma foldl_py_update_distinct:
  "distinct (map (\<lambda>p. key (fst p)) (acc @ xs)) \<Longrightarrow>
   foldl (\<lambda>d (k, v). py_update k v d) acc xs = acc @ xs"
proof (induction xs arbitrary: acc)
  case Nil
  then show ?case by simp
next
  case (Cons x xs)
  obtain k v where x: "x = (k, v)" by (cases x)
  with Cons.prems have "\<forall>k' \<in> fst ` set acc. key k' \<noteq> key k" by (auto simp: image_iff)
  then have "\<forall>k' \<in> fst ` set acc. \<not> py_eq k' k" by (simp add: py_eq_def)
  then have "py_update k v acc = acc @ [(k, v)]" by (rule py_update_fresh)
  moreover have "distinct (map (\<lambda>p. key (fst p)) ((acc @ [(k, v)]) @ xs))"
    using Cons.prems x by simp
  ultimately show ?case using Cons.IH [of "acc @ [(k, v)]"] x by simp
qed

lemma to_dict_distinct: "distinct (map (\<lambda>p. key (fst p)) xs) \<Longrightarrow> to_dict xs = xs"
  using foldl_py_update_distinct [of "[]" xs] by (simp add: to_dict_def)

lemma update_fresh: "k \<notin> fst ` set al \<Longrightarrow> AList.update k v al = al @ [(k, v)]"
  by (induction al) auto

lemma distinct_map_insort_key:
  "distinct (map g (insort_key f x xs)) = (g x \<notin> g ` set xs \<and> distinct (map g xs))"
  by (induction xs) (auto simp: set_insort_key)

lemma distinct_map_sort_key: "distinct (map g (sort_key f xs)) = distinct (map g xs)"
  by (induction xs) (auto simp: distinct_map_insort_key)

lemma value_counts_keys:
  "value_counts s =
     sort_key (\<lambda>(v, c). - int c)
       (map (\<lambda>v. (v, length (filter (py_eq v) (filter (\<lambda>v. \<not> isnull v) (cvalues s)))))
          (vc_keys s))"
  by (simp add: value_counts_def vc_keys_def Let_def)

lemma vc_keys_wf:
  assumes "wf_column n s"
  shows "distinct (map key (vc_keys s))"
    and "v \<in> set (vc_keys s) \<Longrightarrow> \<not> isnull v"
    and "\<not> isnull v \<Longrightarrow> v \<in> set (cvalues s) \<Longrightarrow> \<exists>k \<in> set (vc_keys s). key k = key v"
proof -
  let ?xs = "filter (\<lambda>v. \<not> isnull v) (cvalues s)"
  show "distinct (map key (vc_keys s))"
    using assms first_seen_distinct [of "[]" ?xs]
    by (auto simp: wf_column_def vc_keys_def split: dtype.splits)
  show "\<not> isnull v" if "v \<in> set (vc_keys s)"
    using assms that first_seen_subset [of "[]" ?xs]
    by (auto simp: wf_column_def vc_keys_def list_all_iff split: dtype.splits)
  show "\<exists>k \<in> set (vc_keys s). key k = key v" if "\<not> isnull v" "v \<in> set (cvalues s)"
  proof -
    from that have "v \<in> set ?xs" by simp
    from first_seen_covers [OF this, of "[]"]
    have "\<exists>k \<in> set (first_seen [] ?xs). key k = key v" by simp
    with assms that show ?thesis
      by (auto simp: wf_column_def vc_keys_def list_all_iff split: dtype.splits)
  qed
qed

lemma value_counts_wf:
  assumes "wf_column n s"
  shows "distinct (map (\<lambda>p. key (fst p)) (value_counts s))"
    and "(k, m) \<in> set (value_counts s) \<Longrightarrow>
           \<not> isnull k \<and> m = length (filter (py_eq k) (cvalues s))"
    and "\<not> isnull v \<Longrightarrow> v \<in> set (cvalues s) \<Longrightarrow>
           \<exists>k m. (k, m) \<in> set (value_counts s) \<and> py_eq k v \<and>
                 m = length (filter (py_eq v) (cvalues s))"
proof -
  let ?xs = "filter (\<lambda>v. \<not> isnull v) (cvalues s)"
  let ?tab = "map (\<lambda>v. (v, length (filter (py_eq v) ?xs))) (vc_keys s)"
  have s: "set (value_counts s) = set ?tab"
    unfolding value_counts_keys by simp
  have "map (\<lambda>p. key (fst p)) ?tab = map key (vc_keys s)" by (simp add: comp_def)
  then show "distinct (map (\<lambda>p. key (fst p)) (value_counts s))"
    unfolding value_counts_keys using vc_keys_wf(1) [OF assms]
    by (simp add: distinct_map_sort_key comp_def)
  show "\<not> isnull k \<and> m = length (filter (py_eq k) (cvalues s))"
    if "(k, m) \<in> set (value_counts s)"
  proof -
    from that s have k: "k \<in> set (vc_keys s)" and m: "m = length (filter (py_eq k) ?xs)"
      by auto
    from vc_keys_wf(2) [OF assms k] have "\<not> isnull k" .
    with m py_eq_count_nonnull [OF this, of "cvalues s"] show ?thesis by simp
  qed
  show "\<exists>k m. (k, m) \<in> set (value_counts s) \<and> py_eq k v \<and>
                 m = length (filter (py_eq v) (cvalues s))"
    if "\<not> isnull v" "v \<in> set (cvalues s)"
  proof -
    from vc_keys_wf(3) [OF assms that] obtain k where
      k: "k \<in> set (vc_keys s)" and e: "key k = key v" by auto
    from that(1) have "key v \<noteq> None" by (simp add: isnull_iff_key)
    with e have p: "py_eq k v" by (simp add: py_eq_def)
    from vc_keys_wf(2) [OF assms k] have nk: "\<not> isnull k" .
    have "(k, length (filter (py_eq k) ?xs)) \<in> set (value_counts s)"
      using k s by auto
    moreover have "length (filter (py_eq k) ?xs) = length (filter (py_eq v) (cvalues s))"
      using py_eq_count_nonnull [OF nk, of "cvalues s"] py_eq_filter [OF p, of "cvalues s"]
      by simp
    ultimately show ?thesis using p by blast
  qed
qed

lemma value_counts_mixed:
  "value_counts \<lparr>cname = ''x'', cdtype = Object,
                  cvalues = [IntC 1, StrC ''1'', IntC 1, BoolC True]\<rparr> =
     [(IntC 1, 3), (StrC ''1'', 1)]"
  by (simp add: value_counts_def Let_def py_eq_def)

subsection \<open>The result of the analysis\<close>

lemma categorical_summary_distinct:
  assumes "distinct (columns df)"
  shows "set cs \<subseteq> set (cols df) \<Longrightarrow> distinct (map fst acc @ map cname cs) \<Longrightarrow>
     categorical_summary df (map cname cs) acc =
       Inr (acc @ map (\<lambda>c. (cname c, to_dict (value_counts c))) cs)"
proof (induction cs arbitrary: acc)
  case Nil
  then show ?case by simp
next
  case (Cons c cs)
  have g: "getitem df (cname c) = Inr (Series c)"
    using getitem_distinct [OF assms] Cons.prems by simp
  from Cons.prems have "cname c \<notin> fst ` set acc" by auto
  then have u: "AList.update (cname c) (to_dict (value_counts c)) acc =
      acc @ [(cname c, to_dict (value_counts c))]"
    by (rule update_fresh)
  have "distinct (map fst (acc @ [(cname c, to_dict (value_counts c))]) @ map cname cs)"
    using Cons.prems by auto
  with Cons.IH [of "acc @ [(cname c, to_dict (value_counts c))]"] Cons.prems g u
  show ?case by (simp add: selection_value_counts_def)
qed

lemma categorical_table:
  assumes "distinct (columns df)"
  shows "categorical_summary df (columns (select_dtypes [sel_object, sel_category] df)) [] =
     Inr (map (\<lambda>c. (cname c, to_dict (value_counts c)))
            (cols (select_dtypes [sel_object, sel_category] df)))"
proof -
  let ?sel = "cols (select_dtypes [sel_object, sel_category] df)"
  have "distinct (map cname ?sel)"
    using assms by (simp add: select_dtypes_def columns_def distinct_map_filter)
  then show ?thesis
    using categorical_summary_distinct [OF assms, of ?sel "[]"]
      select_dtypes_cols_subset [of "[sel_object, sel_category]" df]
    by (simp add: columns_select)
qed

lemma analysis_dict_Inr:
  assumes "analysis_dict pd df = Inr r"
  shows "\<exists>num cat.
     (if cols (select_dtypes [np_number] df) = [] then num = [] else describe pd df = Inr num) \<and>
     categorical_summary df (columns (select_dtypes [sel_object, sel_category] df)) [] = Inr cat \<and>
     r = [(''shape'', ShapeV (shape df)),
          (''columns'', ColumnsV (columns df)),
          (''dtypes'', DtypesV (dict_of (map (\<lambda>c. (cname c, cdtype c)) (cols df)))),
          (''missing_values'',
             MissingV (dict_of (map (\<lambda>c. (cname c, isnull_sum c)) (cols df)))),
          (''numeric_summary'', SummaryV num),
          (''categorical_summary'', FreqV cat)]"
  using assms
  by (auto simp: analysis_dict_def columns_def split: sum.splits if_splits)

lemma analysis_dict_no_numeric:
  assumes "distinct (columns df)" and "cols (select_dtypes [np_number] df) = []"
  shows "\<exists>cat. analysis_dict pd df =
     Inr [(''shape'', ShapeV (shape df)),
          (''columns'', ColumnsV (columns df)),
          (''dtypes'', DtypesV (dict_of (map (\<lambda>c. (cname c, cdtype c)) (cols df)))),
          (''missing_values'',
             MissingV (dict_of (map (\<lambda>c. (cname c, isnull_sum c)) (cols df)))),
          (''numeric_summary'', SummaryV []),
          (''categorical_summary'', FreqV cat)]"
  using assms(2) categorical_table [OF assms(1)]
  by (simp add: analysis_dict_def columns_def)

lemma analysis_dict_total:
  assumes "distinct (columns df)" and "describe pd df = Inr num"
  shows "\<exists>r. analysis_dict pd df = Inr r"
  using assms(2) categorical_table [OF assms(1)]
  by (simp add: analysis_dict_def)

lemma analyze_cached:
  "analyze pd np (self\<lparr>data := Some df\<rparr>) w = (analysis_dict pd df, self\<lparr>data := Some df\<rparr>, w)"
  by (simp add: analyze_def load_if_none_def)

lemma text_frame_analysis:
  "analyze pd np (self\<lparr>data := Some text_frame\<rparr>) w =
     (Inr [(''shape'', ShapeV (3, 1)),
           (''columns'', ColumnsV [''nome'']),
           (''dtypes'', DtypesV [(''nome'', Object)]),
           (''missing_values'', MissingV [(''nome'', 0)]),
           (''numeric_summary'', SummaryV []),
           (''categorical_summary'',
              FreqV [(''nome'', [(StrC ''x'', 2), (StrC ''y'', 1)])])],
      self\<lparr>data := Some text_frame\<rparr>, w)"
  by (simp add: analyze_cached analysis_dict_def text_frame_def select_dtypes_def columns_def
      shape_def dict_of_def isnull_sum_def getitem_def value_counts_def Let_def
      selection_value_counts_def to_dict_def py_eq_def)

lemma analyze_Inr:
  assumes "analyze pd np self w = (Inr r, self', w')"
  shows "\<exists>df. data self' = Some df \<and> analysis_dict pd df = Inr r"
  using assms
  by (auto simp: analyze_def split: prod.splits sum.splits option.splits)

lemma map_of_named:
  "distinct (map cname cs) \<Longrightarrow> c \<in> set cs \<Longrightarrow>
   map_of (map (\<lambda>c. (cname c, g c)) cs) (cname c) = Some (g c)"
  by (induction cs) (auto simp: image_iff)

lemma map_of_unnamed:
  "col \<notin> cname ` set cs \<Longrightarrow> map_of (map (\<lambda>c. (cname c, g c)) cs) col = None"
  by (induction cs) auto

lemma distinct_names_eq:
  "distinct (map cname cs) \<Longrightarrow> c \<in> set cs \<Longrightarrow> c' \<in> set cs \<Longrightarrow> cname c = cname c' \<Longrightarrow> c = c'"
  by (meson distinct_map inj_on_def)

lemma wf_frame_column: "wf_frame df \<Longrightarrow> c \<in> set (cols df) \<Longrightarrow> wf_column (nrows df) c"
  by (simp add: wf_frame_def list_all_iff)

lemma wf_sample_frame:
  "length categoria = 1000 \<Longrightarrow> length valor = 1000 \<Longrightarrow> length ativo = 1000 \<Longrightarrow>
   wf_frame (sample_frame categoria valor ativo)"
  by (simp add: wf_frame_def wf_column_def sample_frame_def columns_def date_range_def)

lemma small_frame_analysis:
  "fst (analyze pd_reject np (self\<lparr>data := Some small_frame\<rparr>) w) =
     Inr [(''shape'', ShapeV (3, 5)),
          (''columns'', ColumnsV [''id'', ''categoria'', ''valor'', ''data'', ''ativo'']),
          (''dtypes'', DtypesV [(''id'', Int64), (''categoria'', Object), (''valor'', Float64),
                                (''data'', Datetime64), (''ativo'', Bool)]),
          (''missing_values'', MissingV [(''id'', 0), (''categoria'', 0), (''valor'', 0),
                                         (''data'', 0), (''ativo'', 0)]),
          (''numeric_summary'', SummaryV []),
          (''categorical_summary'',
             FreqV [(''categoria'', [(StrC ''A'', 2), (StrC ''B'', 1)])])]"
  by (simp add: analyze_cached analysis_dict_def small_frame_def select_dtypes_def columns_def
      shape_def dict_of_def isnull_sum_def getitem_def value_counts_def Let_def
      selection_value_counts_def to_dict_def py_eq_def pd_reject_def
      isnan_def f100_def f25_def)

lemma analyze_loads_first:
  assumes "data self = None"
  shows "analyze pd np self w =
     (case load_data pd np self w of
        (Inl e, s, w1) \<Rightarrow> (Inl e, s, w1)
      | (Inr df, s, w1) \<Rightarrow> analyze pd np s w1)"
proof -
  obtain r s w1 where l: "load_data pd np self w = (r, s, w1)"
    by (cases "load_data pd np self w")
  show ?thesis
  proof (cases r)
    case (Inl e)
    with l assms show ?thesis by (simp add: analyze_def load_if_none_load)
  next
    case (Inr df)
    with l have "data s = Some df" by (auto dest: load_data_data)
    with l Inr assms show ?thesis
      by (simp add: analyze_def load_if_none_load load_if_none_some)
  qed
qed

lemma create_visualizations_loads_first:
  assumes "data self = None"
  shows "create_visualizations pd np save_path self w =
     (case load_data pd np self w of
        (Inl e, s, w1) \<Rightarrow> (Inl e, s, w1)
      | (Inr df, s, w1) \<Rightarrow> create_visualizations pd np save_path s w1)"
proof -
  obtain r s w1 where l: "load_data pd np self w = (r, s, w1)"
    by (cases "load_data pd np self w")
  show ?thesis
  proof (cases r)
    case (Inl e)
    with l assms show ?thesis by (simp add: create_visualizations_def load_if_none_load)
  next
    case (Inr df)
    with l have "data s = Some df" by (auto dest: load_data_data)
    with l Inr assms show ?thesis
      by (simp add: create_visualizations_def load_if_none_load load_if_none_some)
  qed
qed

lemma not_exists_sample_csv: "\<not> exists (fs w0) (data_path (DataAnalyzer ''data/sample_data.csv''))"
  by (simp add: exists_def w0_def DataAnalyzer_def Path_def)

subsection \<open>A run of the visualizations on the sample table\<close>

lemma first_seen_Nil: "first_seen [] xs = [] \<longleftrightarrow> xs = []"
  by (cases xs) simp_all

lemma value_counts_nonempty:
  assumes "\<forall>cats. cdtype s \<noteq> Category cats" and "v \<in> set (cvalues s)" and "\<not> isnull v"
  shows "value_counts s \<noteq> []"
proof -
  let ?xs = "filter (\<lambda>v. \<not> isnull v) (cvalues s)"
  have "?xs \<noteq> []" using assms(2,3) by (auto simp: filter_empty_conv)
  then have k: "first_seen [] ?xs \<noteq> []" by (simp add: first_seen_Nil)
  have "length (value_counts s) = length (first_seen [] ?xs)"
    using assms(1) by (cases "cdtype s") (simp_all add: value_counts_def)
  with k show ?thesis by auto
qed

lemma generate_sample_data_np_cycle:
  assumes "generate_sample_data np_cycle self w = (Inr (sample_frame categoria valor ativo), s, v)"
  shows "valor = replicate 1000 f100"
proof -
  have i: "inj FloatC" by (simp add: inj_def)
  from assms have "map FloatC (replicate 1000 f100) = map FloatC valor"
    by (simp add: generate_sample_data_def np_cycle_def DataFrame_def sample_frame_def Let_def
        split: if_splits)
  with i show ?thesis by (simp only: inj_map_eq_map)
qed

lemma sample_frame_plots:
  assumes c: "length categoria = 1000" "set categoria \<subseteq> {StrC ''A'', StrC ''B'', StrC ''C'', StrC ''D''}"
    and a: "length ativo = 1000" "set ativo \<subseteq> {BoolC True, BoolC False}"
    and d: "p \<in> dirs fs1" "p \<in> writable fs1" "p \<noteq> []"
      "p @ [''distribuicoes.png''] \<notin> dirs fs1" "p @ [''categoricas.png''] \<notin> dirs fs1"
  shows "\<exists>fs2 fs3.
     plot_distribuicoes (sample_frame categoria (replicate 1000 f100) ativo) p fs1 = Inr fs2 \<and>
     plot_categoricas (sample_frame categoria (replicate 1000 f100) ativo) p fs2 = Inr fs3"
proof -
  let ?c = "\<lparr>cname = ''categoria'', cdtype = Object, cvalues = categoria\<rparr>"
  let ?a = "\<lparr>cname = ''ativo'', cdtype = Bool, cvalues = ativo\<rparr>"
  from c obtain x where x: "x \<in> set categoria" by (cases categoria) auto
  with c(2) have "\<not> isnull x" by auto
  with x have vc: "value_counts ?c \<noteq> []" by (intro value_counts_nonempty [of ?c x]) simp_all
  from a obtain y where y: "y \<in> set ativo" by (cases ativo) auto
  with a(2) have "\<not> isnull y" by auto
  with y have va: "value_counts ?a \<noteq> []" by (intro value_counts_nonempty [of ?a y]) simp_all
  have h: "\<not> hist_raises (map FloatC (replicate 1000 f100))"
    by (simp add: hist_raises_def list_ex_iff isinf_def f100_def)
  show ?thesis
    using vc va h d
    by (simp add: plot_distribuicoes_def plot_categoricas_def sample_frame_def select_dtypes_def
        columns_def subplots_def getitem_def selection_hist_def selection_value_counts_def
        plot_bar_def savefig_def path_div_distribuicoes path_div_categoricas parent_def
        numeral_2_eq_2 Let_def)
qed

lemma sample_run:
  "fst (create_visualizations pd_reject np_cycle ''plots/''
          (DataAnalyzer ''data/sample_data.csv'') w0) = Inr ()"
proof -
  let ?s = "DataAnalyzer ''data/sample_data.csv''"
  from generate_sample_data_ok [OF np_cycle_contract, of ?s "logger WARNING ArquivoNaoEncontrado w0"]
  obtain categoria valor ativo w' where
    g: "generate_sample_data np_cycle ?s (logger WARNING ArquivoNaoEncontrado w0) =
       (Inr (sample_frame categoria valor ativo),
        ?s\<lparr>data := Some (sample_frame categoria valor ativo)\<rparr>, w')"
    and l: "length categoria = 1000"
      "set categoria \<subseteq> {StrC ''A'', StrC ''B'', StrC ''C'', StrC ''D''}"
      "length ativo = 1000" "set ativo \<subseteq> {BoolC True, BoolC False}"
    by blast
  have v: "valor = replicate 1000 f100" using g by (rule generate_sample_data_np_cycle)
  let ?df = "sample_frame categoria (replicate 1000 f100) ativo"
  have fw: "fs w' = fs w0"
    using generate_sample_data_fs [of np_cycle ?s "logger WARNING ArquivoNaoEncontrado w0"] g
    by (simp add: logger_def)
  let ?fs1 = "(fs w0)\<lparr>dirs := insert [''plots''] (dirs (fs w0)),
                      writable := insert [''plots''] (writable (fs w0))\<rparr>"
  have m: "mkdir_exist_ok (fs w0) [''plots''] = Inr ?fs1"
    by (rule mkdir_exist_ok_creates) (simp_all add: parent_plots exists_def w0_def)
  from sample_frame_plots [OF l, of "[''plots'']" ?fs1]
  obtain fs2 fs3 where "plot_distribuicoes ?df [''plots''] ?fs1 = Inr fs2"
    "plot_categoricas ?df [''plots''] fs2 = Inr fs3"
    by (auto simp: w0_def)
  then show ?thesis
    using g v fw m not_exists_sample_csv
    by (simp add: create_visualizations_def load_if_none_def load_data_def DataAnalyzer_def
        Path_plots)
qed


subsection \<open>The table a session holds\<close>

lemma load_data_table:
  "fst (load_data pd np self w) =
     (if exists (fs w) (data_path self)
      then (case read_csv pd (fs w) (data_path self) of
              Inr t \<Rightarrow> Inr t
            | Inl e \<Rightarrow> fst (generate_sample_data np self w))
      else fst (generate_sample_data np self w))"
proof (cases "exists (fs w) (data_path self)")
  case True
  show ?thesis
  proof (cases "read_csv pd (fs w) (data_path self)")
    case (Inl e)
    with True generate_sample_data_fst [of np self "logger ERROR (ErroAoCarregar e) w" self w]
    show ?thesis by (simp add: load_data_def)
  next
    case (Inr t)
    with True show ?thesis by (simp add: load_data_def)
  qed
next
  case False
  obtain r s v where x:
    "generate_sample_data np self (logger WARNING ArquivoNaoEncontrado w) = (r, s, v)"
    by (cases "generate_sample_data np self (logger WARNING ArquivoNaoEncontrado w)")
  with generate_sample_data_fst [of np self w self "logger WARNING ArquivoNaoEncontrado w"]
  have r: "fst (generate_sample_data np self w) = r" by simp
  show ?thesis
  proof (cases r)
    case (Inl e)
    with False x r
      generate_sample_data_fst [of np s "logger ERROR (ErroAoCarregar e) v" self w]
    show ?thesis by (simp add: load_data_def)
  next
    case (Inr df)
    with False x r show ?thesis by (simp add: load_data_def)
  qed
qed

lemma load_if_none_table:
  assumes "load_if_none pd np self w = (Inr (), self', w1)"
  shows "(data self = None \<longrightarrow>
            (\<exists>t. fst (load_data pd np self w) = Inr t \<and> data self' = Some t)) \<and>
         (data self \<noteq> None \<longrightarrow> data self' = data self)"
proof (cases "data self")
  case None
  obtain r s v where l: "load_data pd np self w = (r, s, v)"
    by (cases "load_data pd np self w")
  with assms None obtain t where "r = Inr t" "s = self'"
    by (cases r) (simp_all add: load_if_none_def)
  with l load_data_data [of pd np self w t self' v] None show ?thesis by simp
next
  case (Some df)
  with assms show ?thesis by (simp add: load_if_none_def)
qed

lemma analyze_load_if_none:
  assumes "analyze pd np self w = (Inr r, self', w')"
  shows "load_if_none pd np self w = (Inr (), self', w')"
  using assms
  by (auto simp: analyze_def split: prod.splits sum.splits option.splits)

section \<open>The properties of the specification\<close>

text \<open>
  C1. With a numpy that keeps its contract, \<^verbatim>\<open>load_data\<close> never raises: for every
  path, file system and \<^verbatim>\<open>read_csv\<close> it returns a table and caches it in the session.
  When the path does not exist, or \<^verbatim>\<open>read_csv\<close> raises any exception, the table is the
  one \<^verbatim>\<open>generate_sample_data\<close> returns, of shape \<open>(1000, 5)\<close>.
\<close>

theorem load_data_never_raises:
  assumes "np_contract np"
  shows "\<exists>df. fst (load_data pd np self w) = Inr df \<and>
     data (fst (snd (load_data pd np self w))) = Some df \<and>
     (\<not> exists (fs w) (data_path self) \<or> (\<exists>e. read_csv pd (fs w) (data_path self) = Inl e) \<longrightarrow>
        fst (generate_sample_data np self w) = Inr df \<and> shape df = (1000, 5))"
proof (cases "\<not> exists (fs w) (data_path self) \<or>
              (\<exists>e. read_csv pd (fs w) (data_path self) = Inl e)")
  case True
  from load_data_fallback [OF assms True]
  show ?thesis by auto
next
  case False
  then obtain t where "exists (fs w) (data_path self)"
    and "read_csv pd (fs w) (data_path self) = Inr t"
    by (cases "read_csv pd (fs w) (data_path self)") auto
  from load_data_parsed [OF this, of np] False show ?thesis by simp
qed

theorem load_data_never_raises_witness:
  "np_contract np_cycle \<and>
   \<not> exists (fs w0) (data_path (DataAnalyzer ''arquivo_inexistente.csv'')) \<and>
   (\<exists>df. fst (load_data pd_reject np_cycle (DataAnalyzer ''arquivo_inexistente.csv'') w0) = Inr df \<and>
      fst (generate_sample_data np_cycle (DataAnalyzer ''arquivo_inexistente.csv'') w0) = Inr df \<and>
      shape df = (1000, 5))"
  using load_data_never_raises [OF np_cycle_contract, of pd_reject
      "DataAnalyzer ''arquivo_inexistente.csv''" w0]
    np_cycle_contract not_exists_w0
  by (auto simp: DataAnalyzer_def)

text \<open>
  C2. With a numpy that keeps its contract, \<^verbatim>\<open>generate_sample_data\<close> returns a table
  of exactly 1000 rows and the 5 columns \<^verbatim>\<open>id\<close>, \<^verbatim>\<open>categoria\<close>, \<^verbatim>\<open>valor\<close>,
  \<^verbatim>\<open>data\<close>, \<^verbatim>\<open>ativo\<close>; every column has 1000 cells and no missing value; every
  \<^verbatim>\<open>categoria\<close> cell is one of A, B, C, D; the \<^verbatim>\<open>id\<close> cells are 1, 2, ..., 1000 in
  this order, hence unique.
\<close>

theorem generate_sample_data_table:
  assumes "np_contract np"
  shows "\<exists>df. fst (generate_sample_data np self w) = Inr df \<and>
     shape df = (1000, 5) \<and>
     columns df = [''id'', ''categoria'', ''valor'', ''data'', ''ativo''] \<and>
     list_all (\<lambda>c. length (cvalues c) = 1000 \<and> isnull_sum c = 0) (cols df) \<and>
     (\<exists>c. getitem df ''categoria'' = Inr (Series c) \<and>
          set (cvalues c) \<subseteq> {StrC ''A'', StrC ''B'', StrC ''C'', StrC ''D''}) \<and>
     (\<exists>c. getitem df ''id'' = Inr (Series c) \<and> cvalues c = map IntC [1..1000] \<and>
          distinct (cvalues c))"
proof -
  from generate_sample_data_ok [OF assms, of self w]
  obtain categoria valor ativo w' where
    g: "generate_sample_data np self w =
       (Inr (sample_frame categoria valor ativo),
        self\<lparr>data := Some (sample_frame categoria valor ativo)\<rparr>, w')"
    and c: "length categoria = 1000"
      "set categoria \<subseteq> {StrC ''A'', StrC ''B'', StrC ''C'', StrC ''D''}"
    and v: "length valor = 1000" "list_all (\<lambda>x. \<not> isnan x) valor"
    and a: "length ativo = 1000" "set ativo \<subseteq> {BoolC True, BoolC False}"
    by blast
  let ?df = "sample_frame categoria valor ativo"
  have 1: "shape ?df = (1000, 5)" by (simp add: shape_def sample_frame_def)
  have 2: "columns ?df = [''id'', ''categoria'', ''valor'', ''data'', ''ativo'']"
    by (simp add: columns_def sample_frame_def)
  have 3: "list_all (\<lambda>c. isnull_sum c = 0) (cols ?df)"
    using isnull_sum_sample_frame [OF c(2) v(2) a(2)] .
  have 7: "list_all (\<lambda>c. length (cvalues c) = 1000) (cols ?df)"
    using c(1) v(1) a(1) by (simp add: sample_frame_def date_range_def)
  have 4: "getitem ?df ''categoria'' =
      Inr (Series \<lparr>cname = ''categoria'', cdtype = Object, cvalues = categoria\<rparr>)"
    by (simp add: getitem_def sample_frame_def)
  have 5: "getitem ?df ''id'' =
      Inr (Series \<lparr>cname = ''id'', cdtype = Int64, cvalues = map IntC [1..1000]\<rparr>)"
    by (simp add: getitem_def sample_frame_def)
  from 3 7 have 6: "list_all (\<lambda>c. length (cvalues c) = 1000 \<and> isnull_sum c = 0) (cols ?df)"
    by (simp add: list_all_iff)
  show ?thesis
    using g 1 2 6 4 5 c(2) distinct_ids by simp
qed

theorem generate_sample_data_table_witness:
  "np_contract np_cycle \<and>
   (\<exists>df. fst (generate_sample_data np_cycle (DataAnalyzer ''data/sample_data.csv'') w0) = Inr df \<and>
     shape df = (1000, 5) \<and>
     columns df = [''id'', ''categoria'', ''valor'', ''data'', ''ativo''] \<and>
     list_all (\<lambda>c. length (cvalues c) = 1000 \<and> isnull_sum c = 0) (cols df) \<and>
     (\<exists>c. getitem df ''categoria'' = Inr (Series c) \<and>
          set (cvalues c) \<subseteq> {StrC ''A'', StrC ''B'', StrC ''C'', StrC ''D''}) \<and>
     (\<exists>c. getitem df ''id'' = Inr (Series c) \<and> cvalues c = map IntC [1..1000] \<and>
          distinct (cvalues c)))"
  using generate_sample_data_table [OF np_cycle_contract] np_cycle_contract by blast

text \<open>
  C3. \<^verbatim>\<open>generate_sample_data\<close> is deterministic: it seeds numpy's generator with 42
  before drawing, so the table it yields (every \<^verbatim>\<open>categoria\<close>, \<^verbatim>\<open>valor\<close>, \<^verbatim>\<open>data\<close>
  and \<^verbatim>\<open>ativo\<close> cell) does not depend on the state of the generator, of the session
  or of the world it is called in: any two calls yield the same table, and leave the
  generator in the same state.
\<close>

theorem generate_sample_data_deterministic:
  "fst (generate_sample_data np self1 w1) = fst (generate_sample_data np self2 w2) \<and>
   rng (snd (snd (generate_sample_data np self1 w1))) =
   rng (snd (snd (generate_sample_data np self2 w2)))"
  by (simp add: generate_sample_data_def Let_def logger_def split: prod.splits sum.splits)

text \<open>
  C4, as the code has it. For every table with unique labels and no numeric column,
  \<^verbatim>\<open>analyze\<close> (on a session holding the table) raises nothing and its result has the
  key \<^verbatim>\<open>numeric_summary\<close>, with the empty dict as its value: \<^verbatim>\<open>describe\<close> is not
  called (line 84, \<^verbatim>\<open>else {}\<close>).
\<close>

theorem analyze_no_numeric_column:
  assumes "distinct (columns df)" and "cols (select_dtypes [np_number] df) = []"
  shows "\<exists>r. analyze pd np (self\<lparr>data := Some df\<rparr>) w = (Inr r, self\<lparr>data := Some df\<rparr>, w) \<and>
     map_of r ''numeric_summary'' = Some (SummaryV [])"
  using analysis_dict_no_numeric [OF assms, of pd] by (auto simp: analyze_cached)

theorem analyze_no_numeric_column_witness:
  "distinct (columns text_frame) \<and>
   cols (select_dtypes [np_number] text_frame) = [] \<and>
   (\<exists>r. analyze pd_reject np_cycle (DataAnalyzer ''data/sample_data.csv''\<lparr>data := Some text_frame\<rparr>) w0 =
        (Inr r, DataAnalyzer ''data/sample_data.csv''\<lparr>data := Some text_frame\<rparr>, w0) \<and>
      map_of r ''numeric_summary'' = Some (SummaryV []))"
proof -
  have d: "distinct (columns text_frame)"
    by (simp add: text_frame_def columns_def)
  have e: "cols (select_dtypes [np_number] text_frame) = []"
    by (simp add: text_frame_def select_dtypes_def)
  from analyze_no_numeric_column [OF d e] d e show ?thesis by blast
qed

text \<open>
  The claim as the specification states it wants the field absent. On the table of one
  text column the result has all six keys, \<^verbatim>\<open>numeric_summary\<close> among them.
\<close>

theorem numeric_summary_present_and_empty:
  "cols (select_dtypes [np_number] text_frame) = [] \<and>
   fst (analyze pd_reject np_cycle
          \<lparr>data_path = Path ''data/sample_data.csv'', data = Some text_frame\<rparr> w0) =
     Inr [(''shape'', ShapeV (3, 1)),
          (''columns'', ColumnsV [''nome'']),
          (''dtypes'', DtypesV [(''nome'', Object)]),
          (''missing_values'', MissingV [(''nome'', 0)]),
          (''numeric_summary'', SummaryV []),
          (''categorical_summary'',
             FreqV [(''nome'', [(StrC ''x'', 2), (StrC ''y'', 1)])])] \<and>
   ''numeric_summary'' \<in> fst ` set [(''shape'', ShapeV (3, 1)),
          (''columns'', ColumnsV [''nome'']),
          (''dtypes'', DtypesV [(''nome'', Object)]),
          (''missing_values'', MissingV [(''nome'', 0)]),
          (''numeric_summary'', SummaryV []),
          (''categorical_summary'',
             FreqV [(''nome'', [(StrC ''x'', 2), (StrC ''y'', 1)])])]"
proof -
  have "\<lparr>data_path = Path ''data/sample_data.csv'', data = Some text_frame\<rparr> =
        \<lparr>data_path = Path ''data/sample_data.csv'', data = None\<rparr>\<lparr>data := Some text_frame\<rparr>"
    by simp
  then show ?thesis
    using text_frame_analysis [of pd_reject np_cycle
        "\<lparr>data_path = Path ''data/sample_data.csv'', data = None\<rparr>" w0]
    by (simp add: text_frame_def select_dtypes_def)
qed

text \<open>
  C5, as the code has it. When \<^verbatim>\<open>analyze\<close> completes on a well-formed table, the
  categorical summary (a dict, so with one entry per key) has an entry for every column
  of dtype \<^verbatim>\<open>object\<close> or \<^verbatim>\<open>category\<close>. The entry is a frequency table whose keys are
  pairwise unequal and not missing; every value of the column that is not missing is
  equal (Python's \<^verbatim>\<open>==\<close>) to one of its keys, and every key is mapped to the number of
  cells of the column equal to it. The summary has no entry for a column of dtype
  \<^verbatim>\<open>int64\<close>, \<^verbatim>\<open>float64\<close> or \<^verbatim>\<open>datetime64\<close>. In particular, on the sample dataset it
  has an entry for \<^verbatim>\<open>categoria\<close> and none for \<^verbatim>\<open>id\<close>, \<^verbatim>\<open>valor\<close> and \<^verbatim>\<open>data\<close>.
  (Line 86 selects \<^verbatim>\<open>object\<close> and \<^verbatim>\<open>category\<close>; the statement says nothing of
  \<^verbatim>\<open>bool\<close> columns.)
\<close>

theorem analyze_categorical_summary:
  assumes wf: "wf_frame df"
    and an: "analyze pd np self w = (Inr r, self', w')"
    and df: "data self' = Some df"
  shows "\<exists>cat. map_of r ''categorical_summary'' = Some (FreqV cat) \<and> distinct (map fst cat) \<and>
     (\<forall>c \<in> set (cols df).
        (cdtype c = Object \<or> (\<exists>cats. cdtype c = Category cats) \<longrightarrow>
           (\<exists>freq. map_of cat (cname c) = Some freq \<and>
              distinct (map (\<lambda>p. key (fst p)) freq) \<and>
              (\<forall>v. \<not> isnull v \<and> v \<in> set (cvalues c) \<longrightarrow>
                   (\<exists>k m. (k, m) \<in> set freq \<and> py_eq k v \<and>
                          m = length (filter (py_eq v) (cvalues c)))) \<and>
              (\<forall>k m. (k, m) \<in> set freq \<longrightarrow>
                   \<not> isnull k \<and> m = length (filter (py_eq k) (cvalues c))))) \<and>
        (cdtype c = Int64 \<or> cdtype c = Float64 \<or> cdtype c = Datetime64 \<longrightarrow>
           map_of cat (cname c) = None)) \<and>
     (\<forall>np' s v. np_contract np' \<and> fst (generate_sample_data np' s v) = Inr df \<longrightarrow>
        (\<exists>freq. map_of cat ''categoria'' = Some freq) \<and>
        map_of cat ''id'' = None \<and> map_of cat ''valor'' = None \<and>
        map_of cat ''data'' = None)"
proof -
  let ?sel = "cols (select_dtypes [sel_object, sel_category] df)"
  let ?cat = "map (\<lambda>c. (cname c, to_dict (value_counts c))) ?sel"
  from wf have dn: "distinct (columns df)" by (simp add: wf_frame_def)
  have ds: "distinct (map cname ?sel)"
    using dn by (simp add: select_dtypes_def columns_def distinct_map_filter)
  from analyze_Inr [OF an] df have "analysis_dict pd df = Inr r" by auto
  from analysis_dict_Inr [OF this] categorical_table [OF dn]
  have 1: "map_of r ''categorical_summary'' = Some (FreqV ?cat)" by auto
  have 2: "distinct (map fst ?cat)" using ds by (simp add: comp_def)
  have 3: "(\<exists>freq. map_of ?cat (cname c) = Some freq \<and>
              distinct (map (\<lambda>p. key (fst p)) freq) \<and>
              (\<forall>v. \<not> isnull v \<and> v \<in> set (cvalues c) \<longrightarrow>
                   (\<exists>k m. (k, m) \<in> set freq \<and> py_eq k v \<and>
                          m = length (filter (py_eq v) (cvalues c)))) \<and>
              (\<forall>k m. (k, m) \<in> set freq \<longrightarrow>
                   \<not> isnull k \<and> m = length (filter (py_eq k) (cvalues c))))"
    if c: "c \<in> set (cols df)" and t: "cdtype c = Object \<or> (\<exists>cats. cdtype c = Category cats)"
    for c
  proof -
    from c t have cs: "c \<in> set ?sel" by (auto simp: select_dtypes_def)
    have m: "map_of ?cat (cname c) = Some (to_dict (value_counts c))"
      by (rule map_of_named [OF ds cs])
    note w = wf_frame_column [OF wf c]
    note V = value_counts_wf [OF w]
    have e: "to_dict (value_counts c) = value_counts c"
      using V(1) by (rule to_dict_distinct)
    have a: "\<exists>k m. (k, m) \<in> set (value_counts c) \<and> py_eq k v \<and>
                 m = length (filter (py_eq v) (cvalues c))"
      if "\<not> isnull v" "v \<in> set (cvalues c)" for v
      using V(3) [OF that] .
    have b: "\<not> isnull k \<and> m = length (filter (py_eq k) (cvalues c))"
      if "(k, m) \<in> set (value_counts c)" for k m
      using V(2) [OF that] .
    show ?thesis
    proof (intro exI [of _ "value_counts c"] conjI allI impI)
      show "map_of ?cat (cname c) = Some (value_counts c)" using m e by simp
      show "distinct (map (\<lambda>p. key (fst p)) (value_counts c))" by (rule V(1))
    next
      fix v
      assume "\<not> isnull v \<and> v \<in> set (cvalues c)"
      then show "\<exists>k m. (k, m) \<in> set (value_counts c) \<and> py_eq k v \<and>
                 m = length (filter (py_eq v) (cvalues c))"
        using a by blast
    next
      fix k m
      assume "(k, m) \<in> set (value_counts c)"
      then show "\<not> isnull k" using b by blast
    next
      fix k m
      assume "(k, m) \<in> set (value_counts c)"
      then show "m = length (filter (py_eq k) (cvalues c))" using b by blast
    qed
  qed
  have 4: "map_of ?cat (cname c) = None"
    if c: "c \<in> set (cols df)"
      and t: "cdtype c = Int64 \<or> cdtype c = Float64 \<or> cdtype c = Datetime64" for c
  proof -
    have "cname c \<notin> cname ` set ?sel"
    proof
      assume "cname c \<in> cname ` set ?sel"
      then obtain c' where c': "c' \<in> set ?sel" "cname c = cname c'" by auto
      then have "c' \<in> set (cols df)" by (auto simp: select_dtypes_def)
      with dn c c'(2) have "c = c'"
        using distinct_names_eq [of "cols df" c c'] by (simp add: columns_def)
      with c'(1) t show False by (auto simp: select_dtypes_def)
    qed
    then show ?thesis by (rule map_of_unnamed)
  qed
  have 5: "(\<exists>freq. map_of ?cat ''categoria'' = Some freq) \<and>
        map_of ?cat ''id'' = None \<and> map_of ?cat ''valor'' = None \<and>
        map_of ?cat ''data'' = None"
    if "np_contract np'" "fst (generate_sample_data np' s v) = Inr df" for np' s v
  proof -
    from generate_sample_data_ok [OF that(1), of s v] that(2)
    obtain categoria valor ativo where d: "df = sample_frame categoria valor ativo"
      by auto
    have c1: "\<lparr>cname = ''categoria'', cdtype = Object, cvalues = categoria\<rparr> \<in> set (cols df)"
      and c2: "\<lparr>cname = ''id'', cdtype = Int64, cvalues = map IntC [1..1000]\<rparr> \<in> set (cols df)"
      and c3: "\<lparr>cname = ''valor'', cdtype = Float64, cvalues = map FloatC valor\<rparr>
                 \<in> set (cols df)"
      and c4: "\<lparr>cname = ''data'', cdtype = Datetime64,
                 cvalues = date_range d2023_01_01 1000\<rparr> \<in> set (cols df)"
      by (simp_all add: d sample_frame_def)
    from 3 [OF c1] obtain freq where "map_of ?cat ''categoria'' = Some freq" by auto
    with 4 [OF c2] 4 [OF c3] 4 [OF c4] show ?thesis by auto
  qed
  show ?thesis
  proof (intro exI [of _ ?cat] conjI)
    show "map_of r ''categorical_summary'' = Some (FreqV ?cat)" by (rule 1)
    show "distinct (map fst ?cat)" by (rule 2)
    show "\<forall>c \<in> set (cols df).
        (cdtype c = Object \<or> (\<exists>cats. cdtype c = Category cats) \<longrightarrow>
           (\<exists>freq. map_of ?cat (cname c) = Some freq \<and>
              distinct (map (\<lambda>p. key (fst p)) freq) \<and>
              (\<forall>v. \<not> isnull v \<and> v \<in> set (cvalues c) \<longrightarrow>
                   (\<exists>k m. (k, m) \<in> set freq \<and> py_eq k v \<and>
                          m = length (filter (py_eq v) (cvalues c)))) \<and>
              (\<forall>k m. (k, m) \<in> set freq \<longrightarrow>
                   \<not> isnull k \<and> m = length (filter (py_eq k) (cvalues c))))) \<and>
        (cdtype c = Int64 \<or> cdtype c = Float64 \<or> cdtype c = Datetime64 \<longrightarrow>
           map_of ?cat (cname c) = None)"
      using 3 4 by blast
    show "\<forall>np' s v. np_contract np' \<and> fst (generate_sample_data np' s v) = Inr df \<longrightarrow>
        (\<exists>freq. map_of ?cat ''categoria'' = Some freq) \<and>
        map_of ?cat ''id'' = None \<and> map_of ?cat ''valor'' = None \<and>
        map_of ?cat ''data'' = None"
      using 5 by blast
  qed
qed

theorem analyze_categorical_summary_witness:
  "np_contract np_cycle \<and>
   (\<exists>df r cat freq.
      generate_sample_data np_cycle (DataAnalyzer ''data/sample_data.csv'') w0 =
        (Inr df, DataAnalyzer ''data/sample_data.csv''\<lparr>data := Some df\<rparr>,
         snd (snd (generate_sample_data np_cycle (DataAnalyzer ''data/sample_data.csv'') w0))) \<and>
      wf_frame df \<and>
      analyze pd_reject np_cycle (DataAnalyzer ''data/sample_data.csv''\<lparr>data := Some df\<rparr>) w0 =
        (Inr r, DataAnalyzer ''data/sample_data.csv''\<lparr>data := Some df\<rparr>, w0) \<and>
      map_of r ''categorical_summary'' = Some (FreqV cat) \<and>
      map_of cat ''categoria'' = Some freq \<and>
      map_of cat ''id'' = None \<and> map_of cat ''valor'' = None \<and> map_of cat ''data'' = None)"
proof -
  let ?a = "DataAnalyzer ''data/sample_data.csv''"
  from generate_sample_data_ok [OF np_cycle_contract, of ?a w0]
  obtain categoria valor ativo w' where
    g: "generate_sample_data np_cycle ?a w0 =
       (Inr (sample_frame categoria valor ativo),
        ?a\<lparr>data := Some (sample_frame categoria valor ativo)\<rparr>, w')"
    and l: "length categoria = 1000" "length valor = 1000" "length ativo = 1000"
    by blast
  let ?df = "sample_frame categoria valor ativo"
  have wf: "wf_frame ?df" using l by (rule wf_sample_frame)
  have dd: "distinct (columns ?df)" using wf by (simp add: wf_frame_def)
  have "describe pd_reject ?df = Inr []" by (simp add: pd_reject_def)
  from analysis_dict_total [OF dd this] obtain r where r: "analysis_dict pd_reject ?df = Inr r" ..
  have an: "analyze pd_reject np_cycle (?a\<lparr>data := Some ?df\<rparr>) w0 =
      (Inr r, ?a\<lparr>data := Some ?df\<rparr>, w0)"
    by (simp add: analyze_cached r)
  have d: "data (?a\<lparr>data := Some ?df\<rparr>) = Some ?df" by simp
  have gf: "fst (generate_sample_data np_cycle ?a w0) = Inr ?df" using g by simp
  from analyze_categorical_summary [OF wf an d]
  obtain cat where c: "map_of r ''categorical_summary'' = Some (FreqV cat)"
    and s: "\<forall>np' s v. np_contract np' \<and> fst (generate_sample_data np' s v) = Inr ?df \<longrightarrow>
        (\<exists>freq. map_of cat ''categoria'' = Some freq) \<and>
        map_of cat ''id'' = None \<and> map_of cat ''valor'' = None \<and>
        map_of cat ''data'' = None"
    by blast
  from s np_cycle_contract gf
  obtain freq where "map_of cat ''categoria'' = Some freq"
    "map_of cat ''id'' = None" "map_of cat ''valor'' = None" "map_of cat ''data'' = None"
    by blast
  note f = this
  from g have g': "generate_sample_data np_cycle ?a w0 =
      (Inr ?df, ?a\<lparr>data := Some ?df\<rparr>, snd (snd (generate_sample_data np_cycle ?a w0)))"
    by simp
  show ?thesis
    using np_cycle_contract g' wf an c f
    by (intro conjI exI [of _ ?df] exI [of _ r] exI [of _ cat] exI [of _ freq])
qed

text \<open>
  The claim as the specification states it wants an entry for every non-numeric column,
  \<^verbatim>\<open>ativo\<close> included. On the three-row miniature of the sample table the non-numeric
  columns are \<^verbatim>\<open>categoria\<close>, \<^verbatim>\<open>data\<close> and \<^verbatim>\<open>ativo\<close>, and the categorical summary
  has the one entry \<^verbatim>\<open>categoria\<close>.
\<close>

theorem categorical_summary_without_ativo:
  "map cname (filter (\<lambda>c. \<not> dtype_matches np_number (cdtype c)) (cols small_frame)) =
     [''categoria'', ''data'', ''ativo''] \<and>
   (case fst (analyze pd_reject np_cycle
               \<lparr>data_path = Path ''data/sample_data.csv'', data = Some small_frame\<rparr> w0) of
      Inl e \<Rightarrow> None
    | Inr r \<Rightarrow> map_of r ''categorical_summary'') =
     Some (FreqV [(''categoria'', [(StrC ''A'', 2), (StrC ''B'', 1)])]) \<and>
   map_of [(''categoria'', [(StrC ''A'', 2::nat), (StrC ''B'', 1)])] ''ativo'' = None \<and>
   map_of [(''categoria'', [(StrC ''A'', 2::nat), (StrC ''B'', 1)])] ''data'' = None"
proof -
  have "\<lparr>data_path = Path ''data/sample_data.csv'', data = Some small_frame\<rparr> =
        \<lparr>data_path = Path ''data/sample_data.csv'', data = None\<rparr>\<lparr>data := Some small_frame\<rparr>"
    by simp
  then show ?thesis
    using small_frame_analysis [of np_cycle
        "\<lparr>data_path = Path ''data/sample_data.csv'', data = None\<rparr>" w0]
    by (simp add: small_frame_def)
qed

text \<open>
  C6, as the code has it. When \<^verbatim>\<open>create_visualizations\<close> completes on a table with
  unique labels, the file \<^verbatim>\<open>distribuicoes.png\<close> of the output directory is left as it
  was when the table has no numeric column at all; otherwise it holds a figure of one
  sub-plot per numeric column, in the table's order, the \<^verbatim>\<open>id\<close> column included: the
  sub-plot of a column not labelled \<^verbatim>\<open>id\<close> is a 30-bin histogram of the column's
  values, titled "Distribuicao de" followed by the label, and the sub-plot of \<^verbatim>\<open>id\<close>
  is empty. (The test on the number of numeric columns, line 109, comes before the
  \<^verbatim>\<open>id\<close> column is passed over, line 115.)
\<close>

theorem create_visualizations_distribuicoes:
  assumes "create_visualizations pd np save_path self w = (Inr (), self', w')"
    and "data self' = Some df"
    and "distinct (columns df)"
  shows "files (fs w') (Path save_path @ [''distribuicoes.png'']) =
         (if cols (select_dtypes [np_number] df) = []
          then files (fs w) (Path save_path @ [''distribuicoes.png''])
          else Some (Image
                 (map (\<lambda>c. if cname c = ''id'' then new_axes
                       else \<lparr>plots = [Hist (cvalues c) 30],
                             title = Some (Distribuicao_de (cname c)),
                             xlabel = Some (cname c),
                             ylabel = Some Frequencia,
                             xtick_rotation = None\<rparr>)
                    (cols (select_dtypes [np_number] df)))
                 300 ''tight''))"
proof -
  let ?p = "Path save_path"
  let ?d = "?p @ [''distribuicoes.png'']"
  from create_visualizations_Inr [OF assms(1)] assms(2)
  obtain fs1 fs2 where m: "mkdir_exist_ok (fs w) ?p = Inr fs1"
    and d: "plot_distribuicoes df ?p fs1 = Inr fs2"
    and c: "plot_categoricas df ?p fs2 = Inr (fs w')"
    by auto
  have 1: "files fs1 = files (fs w)" using mkdir_exist_ok_Inr [OF m] by simp
  have 2: "files fs2 ?d =
      (if cols (select_dtypes [np_number] df) = [] then files fs1 ?d
       else Some (Image
                 (map (\<lambda>c. if cname c = ''id'' then new_axes
                       else \<lparr>plots = [Hist (cvalues c) 30],
                             title = Some (Distribuicao_de (cname c)),
                             xlabel = Some (cname c),
                             ylabel = Some Frequencia,
                             xtick_rotation = None\<rparr>)
                    (cols (select_dtypes [np_number] df)))
                 300 ''tight''))"
    using plot_distribuicoes_Inr [OF d] plot_distribuicoes_distinct_Inr [OF assms(3) d]
    by (simp split: if_splits)
  have 3: "files (fs w') ?d = files fs2 ?d"
    using plot_categoricas_Inr [OF c] by simp
  show ?thesis using 1 2 3 by simp
qed

theorem create_visualizations_distribuicoes_witness:
  "create_visualizations pd_reject np_cycle ''plots/''
     (DataAnalyzer ''data/sample_data.csv''\<lparr>data := Some small_frame\<rparr>) w_plots =
     (Inr (), DataAnalyzer ''data/sample_data.csv''\<lparr>data := Some small_frame\<rparr>,
      snd (snd (create_visualizations pd_reject np_cycle ''plots/''
        (DataAnalyzer ''data/sample_data.csv''\<lparr>data := Some small_frame\<rparr>) w_plots))) \<and>
   distinct (columns small_frame) \<and>
   files (fs (snd (snd (create_visualizations pd_reject np_cycle ''plots/''
        (DataAnalyzer ''data/sample_data.csv''\<lparr>data := Some small_frame\<rparr>) w_plots))))
     (Path ''plots/'' @ [''distribuicoes.png'']) =
     Some (Image [new_axes,
                  \<lparr>plots = [Hist [FloatC f100, FloatC f25, FloatC f100] 30],
                   title = Some (Distribuicao_de ''valor''),
                   xlabel = Some ''valor'',
                   ylabel = Some Frequencia,
                   xtick_rotation = None\<rparr>] 300 ''tight'')"
proof -
  let ?s = "DataAnalyzer ''data/sample_data.csv''\<lparr>data := Some small_frame\<rparr>"
  let ?cv = "create_visualizations pd_reject np_cycle ''plots/'' ?s w_plots"
  have r: "?cv = (Inr (), ?s, snd (snd ?cv))"
    by (simp add: small_frame_run)
  have d: "distinct (columns small_frame)"
    by (simp add: columns_def small_frame_def)
  have "data ?s = Some small_frame" by simp
  from create_visualizations_distribuicoes [OF r this d] r d
  show ?thesis
    by (simp add: small_frame_def select_dtypes_def)
qed

text \<open>
  The claim as the specification states it fails on the table that has the \<^verbatim>\<open>id\<close>
  column alone: no numeric column remains once \<^verbatim>\<open>id\<close> is excluded, and the file is
  written all the same, with one empty sub-plot.
\<close>

theorem distribuicoes_written_for_id_alone:
  "filter (\<lambda>col. col \<noteq> ''id'') (columns (select_dtypes [np_number] id_frame)) = [] \<and>
   files (fs w_plots) [''plots'', ''distribuicoes.png''] = None \<and>
   fst (create_visualizations pd_reject np_cycle ''plots/''
          \<lparr>data_path = Path ''data/sample_data.csv'', data = Some id_frame\<rparr> w_plots) = Inr () \<and>
   files (fs (snd (snd (create_visualizations pd_reject np_cycle ''plots/''
          \<lparr>data_path = Path ''data/sample_data.csv'', data = Some id_frame\<rparr> w_plots))))
     [''plots'', ''distribuicoes.png''] = Some (Image [new_axes] 300 ''tight'')"
proof -
  have "\<lparr>data_path = Path ''data/sample_data.csv'', data = Some id_frame\<rparr> =
        \<lparr>data_path = Path ''data/sample_data.csv'', data = None\<rparr>\<lparr>data := Some id_frame\<rparr>"
    by simp
  then show ?thesis
    using id_frame_run [of pd_reject np_cycle
        "\<lparr>data_path = Path ''data/sample_data.csv'', data = None\<rparr>"]
    by (simp add: logger_def) (simp add: id_frame_def select_dtypes_def columns_def w_plots_def)
qed


text \<open>
  C7, as the code has it. \<^verbatim>\<open>analyze\<close> on a session holding the table with zero rows and
  zero columns raises nothing and returns shape \<open>(0, 0)\<close>, an empty column list, empty
  dtypes and missing-value counts, and the two keys \<^verbatim>\<open>numeric_summary\<close> and
  \<^verbatim>\<open>categorical_summary\<close>, each present with the empty dict as its value; the session
  and the world are left as they were.
\<close>

theorem analyze_empty_table:
  "analyze pd np (self\<lparr>data := Some empty_frame\<rparr>) w =
     (Inr [(''shape'', ShapeV (0, 0)),
           (''columns'', ColumnsV []),
           (''dtypes'', DtypesV []),
           (''missing_values'', MissingV []),
           (''numeric_summary'', SummaryV []),
           (''categorical_summary'', FreqV [])],
      self\<lparr>data := Some empty_frame\<rparr>, w)"
  by (simp add: analyze_def load_if_none_def analysis_dict_def empty_frame_def
      select_dtypes_def columns_def shape_def dict_of_def)

text \<open>
  The claim as the specification states it wants no numeric summary and no categorical
  summary in the result. On the table with zero rows and zero columns the result has
  both keys: each is present, with the empty dict as its value.
\<close>

theorem empty_table_summaries_present:
  "shape empty_frame = (0, 0) \<and>
   (case fst (analyze pd_reject np_cycle
               \<lparr>data_path = Path ''data/sample_data.csv'', data = Some empty_frame\<rparr> w0) of
      Inl e \<Rightarrow> None
    | Inr r \<Rightarrow> map_of r ''numeric_summary'') = Some (SummaryV []) \<and>
   (case fst (analyze pd_reject np_cycle
               \<lparr>data_path = Path ''data/sample_data.csv'', data = Some empty_frame\<rparr> w0) of
      Inl e \<Rightarrow> None
    | Inr r \<Rightarrow> map_of r ''categorical_summary'') = Some (FreqV []) \<and>
   (case fst (analyze pd_reject np_cycle
               \<lparr>data_path = Path ''data/sample_data.csv'', data = Some empty_frame\<rparr> w0) of
      Inl e \<Rightarrow> []
    | Inr r \<Rightarrow> map fst r) =
     [''shape'', ''columns'', ''dtypes'', ''missing_values'', ''numeric_summary'',
      ''categorical_summary'']"
  by (simp add: analyze_def load_if_none_def analysis_dict_def empty_frame_def
      select_dtypes_def columns_def shape_def dict_of_def)




text \<open>
  C9, as the code has it. When \<^verbatim>\<open>create_visualizations\<close> completes, every file it
  changed is \<^verbatim>\<open>distribuicoes.png\<close> or \<^verbatim>\<open>categoricas.png\<close> directly inside the output
  directory \<^verbatim>\<open>Path(save_path)\<close>, which exists; the first is an image (300 dpi, tight
  bounding box) when the table has a numeric column, the second when it has an object,
  category or bool column.
\<close>

theorem create_visualizations_files:
  assumes "create_visualizations pd np save_path self w = (Inr (), self', w')"
    and "data self' = Some df"
  shows "(\<forall>q. q \<noteq> Path save_path @ [''distribuicoes.png''] \<and>
             q \<noteq> Path save_path @ [''categoricas.png''] \<longrightarrow>
             files (fs w') q = files (fs w) q) \<and>
         (cols (select_dtypes [np_number] df) \<noteq> [] \<longrightarrow>
            (\<exists>fig. files (fs w') (Path save_path @ [''distribuicoes.png'']) =
                     Some (Image fig 300 ''tight''))) \<and>
         (cols (select_dtypes [sel_object, sel_category, sel_bool] df) \<noteq> [] \<longrightarrow>
            (\<exists>fig. files (fs w') (Path save_path @ [''categoricas.png'']) =
                     Some (Image fig 300 ''tight''))) \<and>
         parent (Path save_path @ [''distribuicoes.png'']) = Path save_path \<and>
         parent (Path save_path @ [''categoricas.png'']) = Path save_path \<and>
         Path save_path \<in> dirs (fs w')"
proof -
  let ?p = "Path save_path"
  from create_visualizations_Inr [OF assms(1)] assms(2)
  obtain fs1 fs2 where m: "mkdir_exist_ok (fs w) ?p = Inr fs1"
    and d: "plot_distribuicoes df ?p fs1 = Inr fs2"
    and c: "plot_categoricas df ?p fs2 = Inr (fs w')"
    by auto
  note M = mkdir_exist_ok_Inr [OF m]
  note D = plot_distribuicoes_Inr [OF d]
  note C = plot_categoricas_Inr [OF c]
  have 1: "\<forall>q. q \<noteq> ?p @ [''distribuicoes.png''] \<and> q \<noteq> ?p @ [''categoricas.png''] \<longrightarrow>
             files (fs w') q = files (fs w) q"
    using M D C by simp
  have 2: "cols (select_dtypes [np_number] df) \<noteq> [] \<longrightarrow>
            (\<exists>fig. files (fs w') (?p @ [''distribuicoes.png'']) = Some (Image fig 300 ''tight''))"
    using D C by (simp split: if_splits)
  have 3: "cols (select_dtypes [sel_object, sel_category, sel_bool] df) \<noteq> [] \<longrightarrow>
            (\<exists>fig. files (fs w') (?p @ [''categoricas.png'']) = Some (Image fig 300 ''tight''))"
    using C by (simp split: if_splits)
  have 4: "?p \<in> dirs (fs w')" using M D C by simp
  show ?thesis using 1 2 3 4 by (simp add: parent_child)
qed

theorem create_visualizations_files_witness:
  "create_visualizations pd_reject np_cycle ''plots/''
     (DataAnalyzer ''data/sample_data.csv''\<lparr>data := Some small_frame\<rparr>) w_plots =
     (Inr (), DataAnalyzer ''data/sample_data.csv''\<lparr>data := Some small_frame\<rparr>,
      snd (snd (create_visualizations pd_reject np_cycle ''plots/''
        (DataAnalyzer ''data/sample_data.csv''\<lparr>data := Some small_frame\<rparr>) w_plots))) \<and>
   cols (select_dtypes [np_number] small_frame) \<noteq> [] \<and>
   cols (select_dtypes [sel_object, sel_category, sel_bool] small_frame) \<noteq> [] \<and>
   (\<exists>fig. files (fs (snd (snd (create_visualizations pd_reject np_cycle ''plots/''
        (DataAnalyzer ''data/sample_data.csv''\<lparr>data := Some small_frame\<rparr>) w_plots))))
      (Path ''plots/'' @ [''distribuicoes.png'']) = Some (Image fig 300 ''tight'')) \<and>
   (\<exists>fig. files (fs (snd (snd (create_visualizations pd_reject np_cycle ''plots/''
        (DataAnalyzer ''data/sample_data.csv''\<lparr>data := Some small_frame\<rparr>) w_plots))))
      (Path ''plots/'' @ [''categoricas.png'']) = Some (Image fig 300 ''tight'')) \<and>
   files (fs (snd (snd (create_visualizations pd_reject np_cycle ''plots/''
        (DataAnalyzer ''data/sample_data.csv''\<lparr>data := Some small_frame\<rparr>) w_plots))))
      [''plots'', ''distributions.png''] = files (fs w_plots) [''plots'', ''distributions.png'']"
proof -
  let ?s = "DataAnalyzer ''data/sample_data.csv''\<lparr>data := Some small_frame\<rparr>"
  let ?cv = "create_visualizations pd_reject np_cycle ''plots/'' ?s w_plots"
  have r: "?cv = (Inr (), ?s, snd (snd ?cv))"
    by (simp add: small_frame_run)
  have n: "cols (select_dtypes [np_number] small_frame) \<noteq> []"
    "cols (select_dtypes [sel_object, sel_category, sel_bool] small_frame) \<noteq> []"
    by (simp_all add: small_frame_def select_dtypes_def)
  have q: "[''plots'', ''distributions.png''] \<noteq> Path ''plots/'' @ [''distribuicoes.png'']"
    "[''plots'', ''distributions.png''] \<noteq> Path ''plots/'' @ [''categoricas.png'']"
    by (simp_all add: Path_plots)
  have "data ?s = Some small_frame" by simp
  from create_visualizations_files [OF r this] r n q
  show ?thesis by blast
qed

text \<open>
  The claim as the specification states it names the files \<^verbatim>\<open>distributions.*\<close> and
  \<^verbatim>\<open>categorical.*\<close>: after a run that writes both images into an empty file system, the
  only files are \<^verbatim>\<open>plots/distribuicoes.png\<close> and \<^verbatim>\<open>plots/categoricas.png\<close>.
\<close>

theorem images_named_distribuicoes_categoricas:
  "fst (create_visualizations pd_reject np_cycle ''plots/''
          \<lparr>data_path = Path ''data/sample_data.csv'', data = Some small_frame\<rparr> w_plots) = Inr () \<and>
   dom (files (fs w_plots)) = {} \<and>
   dom (files (fs (snd (snd (create_visualizations pd_reject np_cycle ''plots/''
          \<lparr>data_path = Path ''data/sample_data.csv'', data = Some small_frame\<rparr> w_plots))))) =
     {[''plots'', ''distribuicoes.png''], [''plots'', ''categoricas.png'']} \<and>
   files (fs (snd (snd (create_visualizations pd_reject np_cycle ''plots/''
          \<lparr>data_path = Path ''data/sample_data.csv'', data = Some small_frame\<rparr> w_plots))))
     [''plots'', ''distributions.png''] = None \<and>
   files (fs (snd (snd (create_visualizations pd_reject np_cycle ''plots/''
          \<lparr>data_path = Path ''data/sample_data.csv'', data = Some small_frame\<rparr> w_plots))))
     [''plots'', ''categorical.png''] = None"
proof -
  have "\<lparr>data_path = Path ''data/sample_data.csv'', data = Some small_frame\<rparr> =
        \<lparr>data_path = Path ''data/sample_data.csv'', data = None\<rparr>\<lparr>data := Some small_frame\<rparr>"
    by simp
  then show ?thesis
    using small_frame_run [of pd_reject np_cycle
        "\<lparr>data_path = Path ''data/sample_data.csv'', data = None\<rparr>"]
    by (simp add: logger_def) (auto simp: w_plots_def)
qed


text \<open>
  C10, as the code has it. A new session holds no table (\<^verbatim>\<open>self.data\<close> is \<^verbatim>\<open>None\<close>).
  Whenever \<^verbatim>\<open>generate_sample_data\<close> or \<^verbatim>\<open>load_data\<close> completes, the session holds the
  table returned, and the table that \<^verbatim>\<open>load_data\<close> returns is the one \<^verbatim>\<open>read_csv\<close>
  parsed when the file exists and is parsed, and the generated one otherwise. Whenever
  \<^verbatim>\<open>analyze\<close> or \<^verbatim>\<open>create_visualizations\<close> completes, the session holds a table, never
  \<^verbatim>\<open>None\<close>: the table it held before when it held one, and the table that \<^verbatim>\<open>load_data\<close>
  returns when it held none. The table may have no row: nothing looks at its size. On a
  session that holds none, \<^verbatim>\<open>analyze\<close> and \<^verbatim>\<open>create_visualizations\<close> first run
  \<^verbatim>\<open>load_data\<close> and then proceed as on the session that \<^verbatim>\<open>load_data\<close> leaves.
\<close>

theorem session_table_after_operation:
  "data (DataAnalyzer p) = None \<and>
   (\<forall>df self' w'. generate_sample_data np self w = (Inr df, self', w') \<longrightarrow>
       data self' = Some df) \<and>
   (\<forall>df self' w'. load_data pd np self w = (Inr df, self', w') \<longrightarrow> data self' = Some df) \<and>
   fst (load_data pd np self w) =
     (if exists (fs w) (data_path self)
      then (case read_csv pd (fs w) (data_path self) of
              Inr t \<Rightarrow> Inr t
            | Inl e \<Rightarrow> fst (generate_sample_data np self w))
      else fst (generate_sample_data np self w)) \<and>
   (\<forall>r self' w'. analyze pd np self w = (Inr r, self', w') \<longrightarrow>
       data self' \<noteq> None \<and>
       (data self = None \<longrightarrow>
          (\<exists>t. fst (load_data pd np self w) = Inr t \<and> data self' = Some t)) \<and>
       (data self \<noteq> None \<longrightarrow> data self' = data self)) \<and>
   (\<forall>self' w'. create_visualizations pd np save_path self w = (Inr (), self', w') \<longrightarrow>
       data self' \<noteq> None \<and>
       (data self = None \<longrightarrow>
          (\<exists>t. fst (load_data pd np self w) = Inr t \<and> data self' = Some t)) \<and>
       (data self \<noteq> None \<longrightarrow> data self' = data self)) \<and>
   (data self = None \<longrightarrow>
      analyze pd np self w =
        (case load_data pd np self w of
           (Inl e, s, w1) \<Rightarrow> (Inl e, s, w1)
         | (Inr df, s, w1) \<Rightarrow> analyze pd np s w1)) \<and>
   (data self = None \<longrightarrow>
      create_visualizations pd np save_path self w =
        (case load_data pd np self w of
           (Inl e, s, w1) \<Rightarrow> (Inl e, s, w1)
         | (Inr df, s, w1) \<Rightarrow> create_visualizations pd np save_path s w1))"
proof -
  have L: "(data self = None \<longrightarrow>
          (\<exists>t. fst (load_data pd np self w) = Inr t \<and> data self' = Some t)) \<and>
       (data self \<noteq> None \<longrightarrow> data self' = data self)"
    if "load_if_none pd np self w = (Inr (), self', w1)" for self' w1
    using that by (rule load_if_none_table)
  show ?thesis
  proof (intro conjI allI impI)
    show "data (DataAnalyzer p) = None" by (simp add: DataAnalyzer_def)
  next
    fix df self' w'
    assume "generate_sample_data np self w = (Inr df, self', w')"
    then show "data self' = Some df" by (rule generate_sample_data_data)
  next
    fix df self' w'
    assume "load_data pd np self w = (Inr df, self', w')"
    then show "data self' = Some df" by (rule load_data_data)
  next
    show "fst (load_data pd np self w) =
     (if exists (fs w) (data_path self)
      then (case read_csv pd (fs w) (data_path self) of
              Inr t \<Rightarrow> Inr t
            | Inl e \<Rightarrow> fst (generate_sample_data np self w))
      else fst (generate_sample_data np self w))"
      by (rule load_data_table)
  next
    fix r self' w'
    assume "analyze pd np self w = (Inr r, self', w')"
    from analyze_Inr [OF this] show "data self' \<noteq> None" by auto
  next
    fix r self' w'
    assume a: "analyze pd np self w = (Inr r, self', w')" and n: "data self = None"
    from analyze_load_if_none [OF a] L n
    show "\<exists>t. fst (load_data pd np self w) = Inr t \<and> data self' = Some t" by blast
  next
    fix r self' w'
    assume a: "analyze pd np self w = (Inr r, self', w')" and n: "data self \<noteq> None"
    from analyze_load_if_none [OF a] L n
    show "data self' = data self" by blast
  next
    fix self' w'
    assume "create_visualizations pd np save_path self w = (Inr (), self', w')"
    from create_visualizations_Inr [OF this] show "data self' \<noteq> None" by auto
  next
    fix self' w'
    assume a: "create_visualizations pd np save_path self w = (Inr (), self', w')"
      and n: "data self = None"
    from create_visualizations_Inr [OF a] L n
    show "\<exists>t. fst (load_data pd np self w) = Inr t \<and> data self' = Some t" by blast
  next
    fix self' w'
    assume a: "create_visualizations pd np save_path self w = (Inr (), self', w')"
      and n: "data self \<noteq> None"
    from create_visualizations_Inr [OF a] L n
    show "data self' = data self" by blast
  next
    assume "data self = None"
    then show "analyze pd np self w =
        (case load_data pd np self w of
           (Inl e, s, w1) \<Rightarrow> (Inl e, s, w1)
         | (Inr df, s, w1) \<Rightarrow> analyze pd np s w1)"
      by (rule analyze_loads_first)
  next
    assume "data self = None"
    then show "create_visualizations pd np save_path self w =
        (case load_data pd np self w of
           (Inl e, s, w1) \<Rightarrow> (Inl e, s, w1)
         | (Inr df, s, w1) \<Rightarrow> create_visualizations pd np save_path s w1)"
      by (rule create_visualizations_loads_first)
  qed
qed

theorem session_table_after_operation_witness:
  "data (DataAnalyzer ''data/sample_data.csv'') = None \<and>
   (\<exists>df s v. load_data pd_reject np_cycle (DataAnalyzer ''data/sample_data.csv'') w0 =
        (Inr df, s, v) \<and> data s = Some df \<and>
        fst (generate_sample_data np_cycle (DataAnalyzer ''data/sample_data.csv'') w0) = Inr df) \<and>
   (\<exists>r s v t. analyze pd_reject np_cycle (DataAnalyzer ''data/sample_data.csv'') w0 =
        (Inr r, s, v) \<and>
        fst (load_data pd_reject np_cycle (DataAnalyzer ''data/sample_data.csv'') w0) = Inr t \<and>
        data s = Some t) \<and>
   (\<exists>s v t. create_visualizations pd_reject np_cycle ''plots/''
             (DataAnalyzer ''data/sample_data.csv'') w0 = (Inr (), s, v) \<and>
        fst (load_data pd_reject np_cycle (DataAnalyzer ''data/sample_data.csv'') w0) = Inr t \<and>
        data s = Some t) \<and>
   (\<exists>s v. create_visualizations pd_reject np_cycle ''plots/''
             (DataAnalyzer ''data/sample_data.csv''\<lparr>data := Some small_frame\<rparr>) w_plots =
             (Inr (), s, v) \<and>
        data s = Some small_frame)"
proof -
  let ?a = "DataAnalyzer ''data/sample_data.csv''"
  let ?b = "?a\<lparr>data := Some small_frame\<rparr>"
  note T = session_table_after_operation [of "''data/sample_data.csv''" np_cycle ?a w0
      pd_reject "''plots/''"]
  note U = session_table_after_operation [of "''data/sample_data.csv''" np_cycle ?b w_plots
      pd_reject "''plots/''"]
  note T1 = T [THEN conjunct1]
  note T4 = T [THEN conjunct2, THEN conjunct2, THEN conjunct2, THEN conjunct1]
  note T5 = T [THEN conjunct2, THEN conjunct2, THEN conjunct2, THEN conjunct2, THEN conjunct1,
      rule_format]
  note T6 = T [THEN conjunct2, THEN conjunct2, THEN conjunct2, THEN conjunct2, THEN conjunct2,
      THEN conjunct1, rule_format]
  note T7 = T [THEN conjunct2, THEN conjunct2, THEN conjunct2, THEN conjunct2, THEN conjunct2,
      THEN conjunct2, THEN conjunct1, rule_format]
  note U6 = U [THEN conjunct2, THEN conjunct2, THEN conjunct2, THEN conjunct2, THEN conjunct2,
      THEN conjunct1, rule_format]
  have n: "data ?a = None" by (rule T1)
  have e: "\<not> exists (fs w0) (data_path ?a)" by (rule not_exists_sample_csv)
  then have e': "\<not> exists (fs w0) (data_path ?a) \<or>
      (\<exists>e. read_csv pd_reject (fs w0) (data_path ?a) = Inl e)" ..
  from load_data_fallback [OF np_cycle_contract e']
  obtain df w1 where l: "load_data pd_reject np_cycle ?a w0 = (Inr df, ?a\<lparr>data := Some df\<rparr>, w1)"
    by (elim exE conjE)
  let ?s = "?a\<lparr>data := Some df\<rparr>"
  have g: "fst (generate_sample_data np_cycle ?a w0) = Inr df"
    using T4 e l by simp
  have 1: "\<exists>df s v. load_data pd_reject np_cycle ?a w0 = (Inr df, s, v) \<and> data s = Some df \<and>
      fst (generate_sample_data np_cycle ?a w0) = Inr df"
    using l g by (intro exI [of _ df] exI [of _ ?s] exI [of _ w1]) simp
  from generate_sample_data_ok [OF np_cycle_contract, of ?a w0]
  obtain categoria valor ativo w2 where
    gg: "generate_sample_data np_cycle ?a w0 =
       (Inr (sample_frame categoria valor ativo),
        ?a\<lparr>data := Some (sample_frame categoria valor ativo)\<rparr>, w2)"
    and len: "length categoria = 1000" "length valor = 1000" "length ativo = 1000"
    by (elim exE conjE)
  from gg g have df: "df = sample_frame categoria valor ativo" by simp
  have dc: "distinct (columns df)"
    using wf_sample_frame [OF len] by (simp add: df wf_frame_def)
  have "describe pd_reject df = Inr []" by (simp add: pd_reject_def)
  from analysis_dict_total [OF dc this]
  obtain r where r: "analysis_dict pd_reject df = Inr r" ..
  have as: "analyze pd_reject np_cycle ?s w1 = (Inr r, ?s, w1)"
    using r by (simp add: analyze_cached)
  have an: "analyze pd_reject np_cycle ?a w0 = (Inr r, ?s, w1)"
    using T7 [OF n] l as by simp
  from T5 [OF an, THEN conjunct2, THEN conjunct1, rule_format, OF n]
  obtain t where t: "fst (load_data pd_reject np_cycle ?a w0) = Inr t" "data ?s = Some t"
    by (elim exE conjE)
  have 2: "\<exists>r s v t. analyze pd_reject np_cycle ?a w0 = (Inr r, s, v) \<and>
        fst (load_data pd_reject np_cycle ?a w0) = Inr t \<and> data s = Some t"
    using an t by (intro exI [of _ r] exI [of _ ?s] exI [of _ w1] exI [of _ t] conjI)
  let ?cv = "create_visualizations pd_reject np_cycle ''plots/'' ?a w0"
  have "fst ?cv = Inr ()" by (rule sample_run)
  then have cv: "?cv = (Inr (), fst (snd ?cv), snd (snd ?cv))"
    by (cases ?cv) simp
  from T6 [OF cv, THEN conjunct2, THEN conjunct1, rule_format, OF n]
  obtain t' where t': "fst (load_data pd_reject np_cycle ?a w0) = Inr t'"
    "data (fst (snd ?cv)) = Some t'"
    by (elim exE conjE)
  have 3: "\<exists>s v t. ?cv = (Inr (), s, v) \<and>
        fst (load_data pd_reject np_cycle ?a w0) = Inr t \<and> data s = Some t"
    using cv t'
    by (intro exI [of _ "fst (snd ?cv)"] exI [of _ "snd (snd ?cv)"] exI [of _ t'] conjI)
  let ?cw = "create_visualizations pd_reject np_cycle ''plots/'' ?b w_plots"
  have cw: "?cw = (Inr (), ?b, snd (snd ?cw))"
    by (simp add: small_frame_run)
  have nb: "data ?b \<noteq> None" by simp
  from U6 [OF cw, THEN conjunct2, THEN conjunct2, rule_format, OF nb]
  have "data ?b = Some small_frame" by simp
  with cw have 4: "\<exists>s v. ?cw = (Inr (), s, v) \<and> data s = Some small_frame"
    by (intro exI [of _ ?b] exI [of _ "snd (snd ?cw)"] conjI)
  from n 1 2 3 4 show ?thesis by (intro conjI)
qed

text \<open>
  The claim as the specification states it has the cached table populated. With a CSV
  file that holds a header line only, \<^verbatim>\<open>read_csv\<close> returns a table of one column and no
  row; \<^verbatim>\<open>analyze\<close> on a new session completes, and the table the session holds
  afterwards is that one, with zero rows.
\<close>

theorem cached_table_without_rows:
  "data (DataAnalyzer ''data/sample_data.csv'') = None \<and>
   exists (fs w_csv) (data_path (DataAnalyzer ''data/sample_data.csv'')) \<and>
   read_csv pd_header_only (fs w_csv) (data_path (DataAnalyzer ''data/sample_data.csv'')) =
     Inr header_frame \<and>
   fst (analyze pd_header_only np_cycle (DataAnalyzer ''data/sample_data.csv'') w_csv) =
     Inr [(''shape'', ShapeV (0, 1)),
          (''columns'', ColumnsV [''a'']),
          (''dtypes'', DtypesV [(''a'', Object)]),
          (''missing_values'', MissingV [(''a'', 0)]),
          (''numeric_summary'', SummaryV []),
          (''categorical_summary'', FreqV [(''a'', [])])] \<and>
   data (fst (snd (analyze pd_header_only np_cycle (DataAnalyzer ''data/sample_data.csv'') w_csv))) =
     Some header_frame \<and>
   nrows header_frame = 0 \<and> cvalues (hd (cols header_frame)) = []"
  by (simp add: analyze_def load_if_none_def load_data_def DataAnalyzer_def Path_def
      exists_def w_csv_def pd_header_only_def header_frame_def analysis_dict_def
      select_dtypes_def columns_def shape_def dict_of_def getitem_def
      selection_value_counts_def value_counts_def to_dict_def logger_def isnull_sum_def
      Let_def)

end
